theory Spec2Isabelle
  imports Complex_Main
begin

section \<open>Arrays, errors and compiled stencil kernels\<close>

text \<open>
  A scalar field is a dense array of numbers: two nested lists in 2D (row index first),
  three in 3D. A vector field is the list of its component arrays, so that
  \<open>curl[0]\<close> of the source is \<open>curl ! 0\<close>. The entries are real numbers: the kernels
  are studied over exact arithmetic, for either precision \<open>real_t\<close> selects; the
  thread count \<open>num_threads\<close> does not change what a kernel computes and is left out.
\<close>

type_synonym field2 = "real list list"
type_synonym field3 = "real list list list"

datatype error = AssertionError | IndexError | ZeroDivisionError | ValueError | TypeError

text \<open>An in-place operation on a caller-owned buffer: the exception raised, if any, and
  the contents of the buffer when the call ends.\<close>

type_synonym 'a outcome = "error option \<times> 'a"

definition is_array2 :: "nat \<Rightarrow> nat \<Rightarrow> field2 \<Rightarrow> bool" where
  "is_array2 N M f = (length f = N \<and> list_all (\<lambda>r. length r = M) f)"

definition is_array3 :: "nat \<Rightarrow> nat \<Rightarrow> nat \<Rightarrow> field3 \<Rightarrow> bool" where
  "is_array3 N M K f = (length f = N \<and> list_all (is_array2 M K) f)"

definition shape2 :: "field2 \<Rightarrow> nat \<times> nat" where
  "shape2 f = (length f, case f of [] \<Rightarrow> 0 | r # _ \<Rightarrow> length r)"

definition shape3 :: "field3 \<Rightarrow> nat \<times> nat \<times> nat" where
  "shape3 f = (length f, case f of [] \<Rightarrow> (0, 0) | p # _ \<Rightarrow> shape2 p)"

text \<open>
  The loop nest a kernel is compiled to when no iteration slice is configured. The band
  of ghost layers left out on every side of every axis is the largest offset any field
  access of the stencil uses, the same for all axes. Each cell is assigned from the
  read-only arguments and from its own old value, so the nest is the cellwise map.
  A compiled kernel called with arrays that differ in shape raises \<open>TypeError\<close> before
  it writes anything; the kernel definitions below carry that check.
\<close>

definition loop_over_domain_2d :: "nat \<Rightarrow> (nat \<Rightarrow> nat \<Rightarrow> real) \<Rightarrow> field2 \<Rightarrow> field2" where
  "loop_over_domain_2d gl rhs out =
     map (\<lambda>i. map (\<lambda>j. if gl \<le> i \<and> i + gl < length out \<and> gl \<le> j \<and> j + gl < length (out ! i)
                         then rhs i j else out ! i ! j)
                   [0..<length (out ! i)])
         [0..<length out]"

definition loop_over_domain_3d ::
  "nat \<Rightarrow> (nat \<Rightarrow> nat \<Rightarrow> nat \<Rightarrow> real) \<Rightarrow> field3 \<Rightarrow> field3" where
  "loop_over_domain_3d gl rhs out =
     map (\<lambda>i. map (\<lambda>j. map (\<lambda>k. if gl \<le> i \<and> i + gl < length out
                                     \<and> gl \<le> j \<and> j + gl < length (out ! i)
                                     \<and> gl \<le> k \<and> k + gl < length (out ! i ! j)
                                   then rhs i j k else out ! i ! j ! k)
                             [0..<length (out ! i ! j)])
                   [0..<length (out ! i)])
         [0..<length out]"

text \<open>Running a compiled kernel on one component of a vector field buffer: indexing the
  component raises \<open>IndexError\<close> when it is missing, and an exception of the kernel
  leaves the buffer as it was (a kernel checks its arguments before its loop).\<close>

definition on_component ::
  "nat \<Rightarrow> ('a \<Rightarrow> error + 'a) \<Rightarrow> 'a list outcome \<Rightarrow> 'a list outcome" where
  "on_component c kern st =
     (case st of
        (Some e, v) \<Rightarrow> (Some e, v)
      | (None, v) \<Rightarrow>
          if length v \<le> c then (Some IndexError, v)
          else (case kern (v ! c) of
                  Inl e \<Rightarrow> (Some e, v)
                | Inr a \<Rightarrow> (None, v[c := a])))"

text \<open>Indexing two components of a read-only vector field for a kernel call.\<close>

definition with_components ::
  "'a list \<Rightarrow> nat \<Rightarrow> nat \<Rightarrow> ('a \<Rightarrow> 'a \<Rightarrow> error + 'b) \<Rightarrow> error + 'b" where
  "with_components v c d kern =
     (if c < length v \<and> d < length v then kern (v ! c) (v ! d) else Inl IndexError)"

definition is_vector_field2 :: "nat \<Rightarrow> nat \<Rightarrow> field2 list \<Rightarrow> bool" where
  "is_vector_field2 N M v = (length v = 2 \<and> list_all (is_array2 N M) v)"

definition is_vector_field3 :: "nat \<Rightarrow> nat \<Rightarrow> nat \<Rightarrow> field3 list \<Rightarrow> bool" where
  "is_vector_field3 N M K v = (length v = 3 \<and> list_all (is_array3 N M K) v)"

section \<open>Curl of an out-of-plane field in 2D\<close>

text \<open>
  Modelled from the spec: \<open>gen_set_fixed_val_at_boundaries_pyst_kernel_2d\<close> of
  \<open>elementwise_ops_2d\<close> is not among the sources. Following section 4.1 of the
  specification, it overwrites every cell within \<open>width\<close> grid points of any of the
  four edges with the fixed value and leaves the other cells as they are.
\<close>

definition set_fixed_val_at_boundaries_2d :: "nat \<Rightarrow> field2 \<Rightarrow> real \<Rightarrow> field2" where
  "set_fixed_val_at_boundaries_2d width field fixed_val =
     map (\<lambda>i. map (\<lambda>j. if i < width \<or> length field \<le> i + width
                           \<or> j < width \<or> length (field ! i) \<le> j + width
                         then fixed_val else field ! i ! j)
                   [0..<length (field ! i)])
         [0..<length field]"

definition outplane_field_curl_x_stencil_2d :: "field2 \<Rightarrow> real \<Rightarrow> nat \<Rightarrow> nat \<Rightarrow> real" where
  "outplane_field_curl_x_stencil_2d field prefactor i j =
     (field ! (i + 1) ! j - field ! (i - 1) ! j) * prefactor"

definition outplane_field_curl_x_pyst_kernel_2d ::
  "field2 \<Rightarrow> real \<Rightarrow> field2 \<Rightarrow> error + field2" where
  "outplane_field_curl_x_pyst_kernel_2d field prefactor curl_x =
     (if shape2 curl_x \<noteq> shape2 field then Inl TypeError
      else Inr (loop_over_domain_2d 1 (outplane_field_curl_x_stencil_2d field prefactor) curl_x))"

definition outplane_field_curl_y_stencil_2d :: "field2 \<Rightarrow> real \<Rightarrow> nat \<Rightarrow> nat \<Rightarrow> real" where
  "outplane_field_curl_y_stencil_2d field prefactor i j =
     (field ! i ! (j - 1) - field ! i ! (j + 1)) * prefactor"

definition outplane_field_curl_y_pyst_kernel_2d ::
  "field2 \<Rightarrow> real \<Rightarrow> field2 \<Rightarrow> error + field2" where
  "outplane_field_curl_y_pyst_kernel_2d field prefactor curl_y =
     (if shape2 curl_y \<noteq> shape2 field then Inl TypeError
      else Inr (loop_over_domain_2d 1 (outplane_field_curl_y_stencil_2d field prefactor) curl_y))"

definition boundary_width :: nat where
  "boundary_width = 1"

definition outplane_field_curl_pyst_kernel_2d ::
  "field2 list \<Rightarrow> field2 \<Rightarrow> real \<Rightarrow> field2 list outcome" where
  "outplane_field_curl_pyst_kernel_2d curl field prefactor =
     (let s1 = on_component 0 (outplane_field_curl_x_pyst_kernel_2d field prefactor) (None, curl);
          s2 = on_component 1 (outplane_field_curl_y_pyst_kernel_2d field prefactor) s1;
          s3 = on_component 0 (\<lambda>c. Inr (set_fixed_val_at_boundaries_2d boundary_width c 0)) s2;
          s4 = on_component 1 (\<lambda>c. Inr (set_fixed_val_at_boundaries_2d boundary_width c 0)) s3
      in s4)"

section \<open>Vorticity update from a velocity forcing in 3D\<close>

definition update_vorticity_from_velocity_forcing_x_comp_stencil_3d ::
  "field3 \<Rightarrow> field3 \<Rightarrow> field3 \<Rightarrow> real \<Rightarrow> nat \<Rightarrow> nat \<Rightarrow> nat \<Rightarrow> real" where
  "update_vorticity_from_velocity_forcing_x_comp_stencil_3d
     vorticity_field_x velocity_forcing_field_y velocity_forcing_field_z prefactor i j k =
     vorticity_field_x ! i ! j ! k + prefactor * (
         velocity_forcing_field_z ! i ! (j + 1) ! k
       - velocity_forcing_field_z ! i ! (j - 1) ! k
       - velocity_forcing_field_y ! (i + 1) ! j ! k
       + velocity_forcing_field_y ! (i - 1) ! j ! k)"

definition update_vorticity_from_velocity_forcing_x_comp_kernel_3d ::
  "field3 \<Rightarrow> field3 \<Rightarrow> real \<Rightarrow> field3 \<Rightarrow> error + field3" where
  "update_vorticity_from_velocity_forcing_x_comp_kernel_3d
     velocity_forcing_field_y velocity_forcing_field_z prefactor vorticity_field_x =
     (if shape3 velocity_forcing_field_y \<noteq> shape3 vorticity_field_x
         \<or> shape3 velocity_forcing_field_z \<noteq> shape3 vorticity_field_x
      then Inl TypeError
      else Inr (loop_over_domain_3d 1
             (update_vorticity_from_velocity_forcing_x_comp_stencil_3d
                vorticity_field_x velocity_forcing_field_y velocity_forcing_field_z prefactor)
             vorticity_field_x))"

definition update_vorticity_from_velocity_forcing_y_comp_stencil_3d ::
  "field3 \<Rightarrow> field3 \<Rightarrow> field3 \<Rightarrow> real \<Rightarrow> nat \<Rightarrow> nat \<Rightarrow> nat \<Rightarrow> real" where
  "update_vorticity_from_velocity_forcing_y_comp_stencil_3d
     vorticity_field_y velocity_forcing_field_x velocity_forcing_field_z prefactor i j k =
     vorticity_field_y ! i ! j ! k + prefactor * (
         velocity_forcing_field_x ! (i + 1) ! j ! k
       - velocity_forcing_field_x ! (i - 1) ! j ! k
       - velocity_forcing_field_z ! i ! j ! (k + 1)
       + velocity_forcing_field_z ! i ! j ! (k - 1))"

definition update_vorticity_from_velocity_forcing_y_comp_kernel_3d ::
  "field3 \<Rightarrow> field3 \<Rightarrow> real \<Rightarrow> field3 \<Rightarrow> error + field3" where
  "update_vorticity_from_velocity_forcing_y_comp_kernel_3d
     velocity_forcing_field_x velocity_forcing_field_z prefactor vorticity_field_y =
     (if shape3 velocity_forcing_field_x \<noteq> shape3 vorticity_field_y
         \<or> shape3 velocity_forcing_field_z \<noteq> shape3 vorticity_field_y
      then Inl TypeError
      else Inr (loop_over_domain_3d 1
             (update_vorticity_from_velocity_forcing_y_comp_stencil_3d
                vorticity_field_y velocity_forcing_field_x velocity_forcing_field_z prefactor)
             vorticity_field_y))"

definition update_vorticity_from_velocity_forcing_z_comp_stencil_3d ::
  "field3 \<Rightarrow> field3 \<Rightarrow> field3 \<Rightarrow> real \<Rightarrow> nat \<Rightarrow> nat \<Rightarrow> nat \<Rightarrow> real" where
  "update_vorticity_from_velocity_forcing_z_comp_stencil_3d
     vorticity_field_z velocity_forcing_field_x velocity_forcing_field_y prefactor i j k =
     vorticity_field_z ! i ! j ! k + prefactor * (
         velocity_forcing_field_y ! i ! j ! (k + 1)
       - velocity_forcing_field_y ! i ! j ! (k - 1)
       - velocity_forcing_field_x ! i ! (j + 1) ! k
       + velocity_forcing_field_x ! i ! (j - 1) ! k)"

definition update_vorticity_from_velocity_forcing_z_comp_kernel_3d ::
  "field3 \<Rightarrow> field3 \<Rightarrow> real \<Rightarrow> field3 \<Rightarrow> error + field3" where
  "update_vorticity_from_velocity_forcing_z_comp_kernel_3d
     velocity_forcing_field_x velocity_forcing_field_y prefactor vorticity_field_z =
     (if shape3 velocity_forcing_field_x \<noteq> shape3 vorticity_field_z
         \<or> shape3 velocity_forcing_field_y \<noteq> shape3 vorticity_field_z
      then Inl TypeError
      else Inr (loop_over_domain_3d 1
             (update_vorticity_from_velocity_forcing_z_comp_stencil_3d
                vorticity_field_z velocity_forcing_field_x velocity_forcing_field_y prefactor)
             vorticity_field_z))"

definition update_vorticity_from_velocity_forcing_pyst_kernel_3d ::
  "field3 list \<Rightarrow> field3 list \<Rightarrow> real \<Rightarrow> field3 list outcome" where
  "update_vorticity_from_velocity_forcing_pyst_kernel_3d
     vorticity_field velocity_forcing_field prefactor =
     (let s1 = on_component 0
            (\<lambda>vorticity_field_x. with_components velocity_forcing_field 1 2
               (\<lambda>fy fz. update_vorticity_from_velocity_forcing_x_comp_kernel_3d
                          fy fz prefactor vorticity_field_x))
            (None, vorticity_field);
          s2 = on_component 1
            (\<lambda>vorticity_field_y. with_components velocity_forcing_field 0 2
               (\<lambda>fx fz. update_vorticity_from_velocity_forcing_y_comp_kernel_3d
                          fx fz prefactor vorticity_field_y))
            s1;
          s3 = on_component 2
            (\<lambda>vorticity_field_z. with_components velocity_forcing_field 0 1
               (\<lambda>fx fy. update_vorticity_from_velocity_forcing_z_comp_kernel_3d
                          fx fy prefactor vorticity_field_z))
            s2
      in s3)"

section \<open>Vorticity update from a penalised velocity in 3D\<close>

definition update_vorticity_from_penalised_velocity_x_comp_stencil_3d ::
  "field3 \<Rightarrow> field3 \<Rightarrow> field3 \<Rightarrow> field3 \<Rightarrow> field3 \<Rightarrow> real \<Rightarrow> nat \<Rightarrow> nat \<Rightarrow> nat \<Rightarrow> real" where
  "update_vorticity_from_penalised_velocity_x_comp_stencil_3d vorticity_field_x
     penalised_velocity_field_y penalised_velocity_field_z velocity_field_y velocity_field_z
     prefactor i j k =
     vorticity_field_x ! i ! j ! k + prefactor * (
         penalised_velocity_field_z ! i ! (j + 1) ! k
       - velocity_field_z ! i ! (j + 1) ! k
       - penalised_velocity_field_z ! i ! (j - 1) ! k
       + velocity_field_z ! i ! (j - 1) ! k
       - penalised_velocity_field_y ! (i + 1) ! j ! k
       + velocity_field_y ! (i + 1) ! j ! k
       + penalised_velocity_field_y ! (i - 1) ! j ! k
       - velocity_field_y ! (i - 1) ! j ! k)"

definition update_vorticity_from_penalised_velocity_x_comp_kernel_3d ::
  "field3 \<Rightarrow> field3 \<Rightarrow> field3 \<Rightarrow> field3 \<Rightarrow> real \<Rightarrow> field3 \<Rightarrow> error + field3" where
  "update_vorticity_from_penalised_velocity_x_comp_kernel_3d
     penalised_velocity_field_y penalised_velocity_field_z velocity_field_y velocity_field_z
     prefactor vorticity_field_x =
     (if shape3 penalised_velocity_field_y \<noteq> shape3 vorticity_field_x
         \<or> shape3 penalised_velocity_field_z \<noteq> shape3 vorticity_field_x
         \<or> shape3 velocity_field_y \<noteq> shape3 vorticity_field_x
         \<or> shape3 velocity_field_z \<noteq> shape3 vorticity_field_x
      then Inl TypeError
      else Inr (loop_over_domain_3d 1
             (update_vorticity_from_penalised_velocity_x_comp_stencil_3d vorticity_field_x
                penalised_velocity_field_y penalised_velocity_field_z
                velocity_field_y velocity_field_z prefactor)
             vorticity_field_x))"

definition update_vorticity_from_penalised_velocity_y_comp_stencil_3d ::
  "field3 \<Rightarrow> field3 \<Rightarrow> field3 \<Rightarrow> field3 \<Rightarrow> field3 \<Rightarrow> real \<Rightarrow> nat \<Rightarrow> nat \<Rightarrow> nat \<Rightarrow> real" where
  "update_vorticity_from_penalised_velocity_y_comp_stencil_3d vorticity_field_y
     penalised_velocity_field_x penalised_velocity_field_z velocity_field_x velocity_field_z
     prefactor i j k =
     vorticity_field_y ! i ! j ! k + prefactor * (
         penalised_velocity_field_x ! (i + 1) ! j ! k
       - velocity_field_x ! (i + 1) ! j ! k
       - penalised_velocity_field_x ! (i - 1) ! j ! k
       + velocity_field_x ! (i - 1) ! j ! k
       - penalised_velocity_field_z ! i ! j ! (k + 1)
       + velocity_field_z ! i ! j ! (k + 1)
       + penalised_velocity_field_z ! i ! j ! (k - 1)
       - velocity_field_z ! i ! j ! (k - 1))"

definition update_vorticity_from_penalised_velocity_y_comp_kernel_3d ::
  "field3 \<Rightarrow> field3 \<Rightarrow> field3 \<Rightarrow> field3 \<Rightarrow> real \<Rightarrow> field3 \<Rightarrow> error + field3" where
  "update_vorticity_from_penalised_velocity_y_comp_kernel_3d
     penalised_velocity_field_x penalised_velocity_field_z velocity_field_x velocity_field_z
     prefactor vorticity_field_y =
     (if shape3 penalised_velocity_field_x \<noteq> shape3 vorticity_field_y
         \<or> shape3 penalised_velocity_field_z \<noteq> shape3 vorticity_field_y
         \<or> shape3 velocity_field_x \<noteq> shape3 vorticity_field_y
         \<or> shape3 velocity_field_z \<noteq> shape3 vorticity_field_y
      then Inl TypeError
      else Inr (loop_over_domain_3d 1
             (update_vorticity_from_penalised_velocity_y_comp_stencil_3d vorticity_field_y
                penalised_velocity_field_x penalised_velocity_field_z
                velocity_field_x velocity_field_z prefactor)
             vorticity_field_y))"

definition update_vorticity_from_penalised_velocity_z_comp_stencil_3d ::
  "field3 \<Rightarrow> field3 \<Rightarrow> field3 \<Rightarrow> field3 \<Rightarrow> field3 \<Rightarrow> real \<Rightarrow> nat \<Rightarrow> nat \<Rightarrow> nat \<Rightarrow> real" where
  "update_vorticity_from_penalised_velocity_z_comp_stencil_3d vorticity_field_z
     penalised_velocity_field_x penalised_velocity_field_y velocity_field_x velocity_field_y
     prefactor i j k =
     vorticity_field_z ! i ! j ! k + prefactor * (
         penalised_velocity_field_y ! i ! j ! (k + 1)
       - velocity_field_y ! i ! j ! (k + 1)
       - penalised_velocity_field_y ! i ! j ! (k - 1)
       + velocity_field_y ! i ! j ! (k - 1)
       - penalised_velocity_field_x ! i ! (j + 1) ! k
       + velocity_field_x ! i ! (j + 1) ! k
       + penalised_velocity_field_x ! i ! (j - 1) ! k
       - velocity_field_x ! i ! (j - 1) ! k)"

definition update_vorticity_from_penalised_velocity_z_comp_kernel_3d ::
  "field3 \<Rightarrow> field3 \<Rightarrow> field3 \<Rightarrow> field3 \<Rightarrow> real \<Rightarrow> field3 \<Rightarrow> error + field3" where
  "update_vorticity_from_penalised_velocity_z_comp_kernel_3d
     penalised_velocity_field_x penalised_velocity_field_y velocity_field_x velocity_field_y
     prefactor vorticity_field_z =
     (if shape3 penalised_velocity_field_x \<noteq> shape3 vorticity_field_z
         \<or> shape3 penalised_velocity_field_y \<noteq> shape3 vorticity_field_z
         \<or> shape3 velocity_field_x \<noteq> shape3 vorticity_field_z
         \<or> shape3 velocity_field_y \<noteq> shape3 vorticity_field_z
      then Inl TypeError
      else Inr (loop_over_domain_3d 1
             (update_vorticity_from_penalised_velocity_z_comp_stencil_3d vorticity_field_z
                penalised_velocity_field_x penalised_velocity_field_y
                velocity_field_x velocity_field_y prefactor)
             vorticity_field_z))"

definition update_vorticity_from_penalised_velocity_kernel_3d ::
  "field3 list \<Rightarrow> field3 list \<Rightarrow> field3 list \<Rightarrow> real \<Rightarrow> field3 list outcome" where
  "update_vorticity_from_penalised_velocity_kernel_3d
     vorticity_field penalised_velocity_field velocity_field prefactor =
     (let s1 = on_component 0
            (\<lambda>vorticity_field_x. with_components penalised_velocity_field 1 2
               (\<lambda>py pz. with_components velocity_field 1 2
                  (\<lambda>vy vz. update_vorticity_from_penalised_velocity_x_comp_kernel_3d
                             py pz vy vz prefactor vorticity_field_x)))
            (None, vorticity_field);
          s2 = on_component 1
            (\<lambda>vorticity_field_y. with_components penalised_velocity_field 0 2
               (\<lambda>px pz. with_components velocity_field 0 2
                  (\<lambda>vx vz. update_vorticity_from_penalised_velocity_y_comp_kernel_3d
                             px pz vx vz prefactor vorticity_field_y)))
            s1;
          s3 = on_component 2
            (\<lambda>vorticity_field_z. with_components penalised_velocity_field 0 1
               (\<lambda>px py. with_components velocity_field 0 1
                  (\<lambda>vx vy. update_vorticity_from_penalised_velocity_z_comp_kernel_3d
                             px py vx vy prefactor vorticity_field_z)))
            s2
      in s3)"

text \<open>The forcing field the specification compares the two accumulators on: the
  elementwise difference of the penalised velocity and the velocity.\<close>

definition field_difference_3d :: "field3 \<Rightarrow> field3 \<Rightarrow> field3" where
  "field_difference_3d p v = map2 (map2 (map2 (\<lambda>a b. a - b))) p v"

definition velocity_forcing_of :: "field3 list \<Rightarrow> field3 list \<Rightarrow> field3 list" where
  "velocity_forcing_of penalised_velocity_field velocity_field =
     map2 field_difference_3d penalised_velocity_field velocity_field"

section \<open>Penalising a field at the boundary in 2D\<close>

text \<open>
  The generator is called with a Python value for \<open>width\<close>, the spacing \<open>dx\<close> and the
  two coordinate arrays; it reads the corner coordinates, asserts that the width is a
  positive \<open>int\<close> and computes the angular frequency of the taper. What the returned
  closure captures is kept in a record. The kernels are the ones generated for grids of
  any extent (\<open>fixed_grid_size\<close> left at its default).
\<close>

datatype pyval = PyInt int | PyFloat real

text \<open>Indexing a 2D array at a pair of integers, negative ones counting from the end.\<close>

definition index2 :: "field2 \<Rightarrow> int \<Rightarrow> int \<Rightarrow> error + real" where
  "index2 a i j =
     (let n = int (length a); i' = (if i < 0 then i + n else i)
      in if i' < 0 \<or> n \<le> i' then Inl IndexError
         else (let r = a ! nat i'; m = int (length r); j' = (if j < 0 then j + m else j)
               in if j' < 0 \<or> m \<le> j' then Inl IndexError else Inr (r ! nat j')))"

record penalise_kernel =
  kernel_width :: int
  kernel_sine_prefactor :: real
  kernel_x_grid_field :: field2
  kernel_y_grid_field :: field2
  kernel_x_grid_field_start :: real
  kernel_y_grid_field_start :: real
  kernel_x_grid_field_end :: real
  kernel_y_grid_field_end :: real

definition gen_penalise_field_boundary_pyst_kernel_2d ::
  "pyval \<Rightarrow> real \<Rightarrow> field2 \<Rightarrow> field2 \<Rightarrow> error + penalise_kernel" where
  "gen_penalise_field_boundary_pyst_kernel_2d width dx x_grid_field y_grid_field =
     (case index2 x_grid_field 0 0 of Inl e \<Rightarrow> Inl e | Inr x_grid_field_start \<Rightarrow>
      case index2 y_grid_field 0 0 of Inl e \<Rightarrow> Inl e | Inr y_grid_field_start \<Rightarrow>
      case index2 x_grid_field 0 (- 1) of Inl e \<Rightarrow> Inl e | Inr x_grid_field_end \<Rightarrow>
      case index2 y_grid_field (- 1) 0 of Inl e \<Rightarrow> Inl e | Inr y_grid_field_end \<Rightarrow>
      (case width of
         PyFloat r \<Rightarrow> Inl AssertionError
       | PyInt w \<Rightarrow>
           if \<not> 0 < w then Inl AssertionError
           else if real_of_int w * dx = 0 then Inl ZeroDivisionError
           else Inr \<lparr> kernel_width = w,
                      kernel_sine_prefactor = (pi / 2) / (real_of_int w * dx),
                      kernel_x_grid_field = x_grid_field,
                      kernel_y_grid_field = y_grid_field,
                      kernel_x_grid_field_start = x_grid_field_start,
                      kernel_y_grid_field_start = y_grid_field_start,
                      kernel_x_grid_field_end = x_grid_field_end,
                      kernel_y_grid_field_end = y_grid_field_end \<rparr>))"

text \<open>The index range \<open>lo \<le> k < hi\<close> a slice \<open>start:stop\<close> selects on an axis of
  length \<open>n\<close>; a missing bound is \<open>None\<close>.\<close>

definition slice_bounds :: "int option \<Rightarrow> int option \<Rightarrow> nat \<Rightarrow> nat \<times> nat" where
  "slice_bounds start stop n =
     (let clip = (\<lambda>v. if v < 0 then max (v + int n) 0 else min v (int n));
          lo = (case start of None \<Rightarrow> 0 | Some a \<Rightarrow> clip a);
          hi = (case stop of None \<Rightarrow> int n | Some b \<Rightarrow> clip b)
      in (nat lo, nat hi))"

text \<open>
  Slice assignment \<open>field[:, d] = field[:, s]\<close> and \<open>field[d, :] = field[s, :]\<close>: the
  right-hand side is read before anything is written; it needs as many columns (rows) as
  the destination, or exactly one, which is then repeated; otherwise the assignment
  raises \<open>ValueError\<close> and writes nothing.
\<close>

definition assign_columns :: "nat \<times> nat \<Rightarrow> nat \<times> nat \<Rightarrow> field2 \<Rightarrow> error + field2" where
  "assign_columns dst src f =
     (if snd src - fst src = snd dst - fst dst
      then Inr (map (\<lambda>r. map (\<lambda>j. if fst dst \<le> j \<and> j < snd dst
                                     then r ! (fst src + (j - fst dst)) else r ! j)
                               [0..<length r]) f)
      else if snd src - fst src = 1
      then Inr (map (\<lambda>r. map (\<lambda>j. if fst dst \<le> j \<and> j < snd dst then r ! fst src else r ! j)
                               [0..<length r]) f)
      else Inl ValueError)"

definition assign_rows :: "nat \<times> nat \<Rightarrow> nat \<times> nat \<Rightarrow> field2 \<Rightarrow> error + field2" where
  "assign_rows dst src f =
     (if snd src - fst src = snd dst - fst dst
      then Inr (map (\<lambda>i. if fst dst \<le> i \<and> i < snd dst
                           then f ! (fst src + (i - fst dst)) else f ! i)
                    [0..<length f])
      else if snd src - fst src = 1
      then Inr (map (\<lambda>i. if fst dst \<le> i \<and> i < snd dst then f ! fst src else f ! i)
                    [0..<length f])
      else Inl ValueError)"

text \<open>The loop nest of a kernel configured with an iteration slice: the cells of the
  slice are assigned, the others are left alone. The operator reaches these kernels only
  with a width that fits the array, since the slice assignment before them raises
  otherwise; the slice bounds are taken as the array indexes them.\<close>

definition loop_over_slice_2d ::
  "nat \<times> nat \<Rightarrow> nat \<times> nat \<Rightarrow> (nat \<Rightarrow> nat \<Rightarrow> real) \<Rightarrow> field2 \<Rightarrow> field2" where
  "loop_over_slice_2d rows cols rhs out =
     map (\<lambda>i. map (\<lambda>j. if fst rows \<le> i \<and> i < snd rows \<and> fst cols \<le> j \<and> j < snd cols
                         then rhs i j else out ! i ! j)
                   [0..<length (out ! i)])
         [0..<length out]"

text \<open>One step of an in-place operation: a step that raises leaves the buffer as it is
  and ends the call.\<close>

definition in_place :: "('a \<Rightarrow> error + 'a) \<Rightarrow> 'a outcome \<Rightarrow> 'a outcome" where
  "in_place step st =
     (case st of
        (Some e, b) \<Rightarrow> (Some e, b)
      | (None, b) \<Rightarrow> (case step b of Inl e \<Rightarrow> (Some e, b) | Inr b' \<Rightarrow> (None, b')))"

text \<open>The factor each stencil multiplies a cell by.\<close>

definition x_front_taper :: "real \<Rightarrow> real \<Rightarrow> field2 \<Rightarrow> nat \<Rightarrow> nat \<Rightarrow> real" where
  "x_front_taper sine_prefactor x_grid_field_start x_grid_field i j =
     sin (sine_prefactor * (x_grid_field ! i ! j - x_grid_field_start))"

definition x_back_taper :: "real \<Rightarrow> real \<Rightarrow> field2 \<Rightarrow> nat \<Rightarrow> nat \<Rightarrow> real" where
  "x_back_taper sine_prefactor x_grid_field_end x_grid_field i j =
     sin (sine_prefactor * (x_grid_field_end - x_grid_field ! i ! j))"

definition y_front_taper :: "real \<Rightarrow> real \<Rightarrow> field2 \<Rightarrow> nat \<Rightarrow> nat \<Rightarrow> real" where
  "y_front_taper sine_prefactor y_grid_field_start y_grid_field i j =
     sin (sine_prefactor * (y_grid_field ! i ! j - y_grid_field_start))"

definition y_back_taper :: "real \<Rightarrow> real \<Rightarrow> field2 \<Rightarrow> nat \<Rightarrow> nat \<Rightarrow> real" where
  "y_back_taper sine_prefactor y_grid_field_end y_grid_field i j =
     sin (sine_prefactor * (y_grid_field_end - y_grid_field ! i ! j))"

definition penalise_field_x_front_boundary_stencil_2d ::
  "penalise_kernel \<Rightarrow> field2 \<Rightarrow> field2 \<Rightarrow> nat \<Rightarrow> nat \<Rightarrow> real" where
  "penalise_field_x_front_boundary_stencil_2d K field x_grid_field i j =
     field ! i ! j * x_front_taper (kernel_sine_prefactor K) (kernel_x_grid_field_start K)
                       x_grid_field i j"

definition penalise_field_x_front_boundary_kernel_2d ::
  "penalise_kernel \<Rightarrow> field2 \<Rightarrow> field2 \<Rightarrow> error + field2" where
  "penalise_field_x_front_boundary_kernel_2d K x_grid_field field =
     (if shape2 x_grid_field \<noteq> shape2 field then Inl TypeError
      else Inr (loop_over_slice_2d
             (slice_bounds None None (fst (shape2 field)))
             (slice_bounds None (Some (kernel_width K)) (snd (shape2 field)))
             (penalise_field_x_front_boundary_stencil_2d K field x_grid_field) field))"

definition penalise_field_x_back_boundary_stencil_2d ::
  "penalise_kernel \<Rightarrow> field2 \<Rightarrow> field2 \<Rightarrow> nat \<Rightarrow> nat \<Rightarrow> real" where
  "penalise_field_x_back_boundary_stencil_2d K field x_grid_field i j =
     field ! i ! j * x_back_taper (kernel_sine_prefactor K) (kernel_x_grid_field_end K)
                       x_grid_field i j"

definition penalise_field_x_back_boundary_kernel_2d ::
  "penalise_kernel \<Rightarrow> field2 \<Rightarrow> field2 \<Rightarrow> error + field2" where
  "penalise_field_x_back_boundary_kernel_2d K x_grid_field field =
     (if shape2 x_grid_field \<noteq> shape2 field then Inl TypeError
      else Inr (loop_over_slice_2d
             (slice_bounds None None (fst (shape2 field)))
             (slice_bounds (Some (- kernel_width K)) None (snd (shape2 field)))
             (penalise_field_x_back_boundary_stencil_2d K field x_grid_field) field))"

definition penalise_field_y_front_boundary_stencil_2d ::
  "penalise_kernel \<Rightarrow> field2 \<Rightarrow> field2 \<Rightarrow> nat \<Rightarrow> nat \<Rightarrow> real" where
  "penalise_field_y_front_boundary_stencil_2d K field y_grid_field i j =
     field ! i ! j * y_front_taper (kernel_sine_prefactor K) (kernel_y_grid_field_start K)
                       y_grid_field i j"

definition penalise_field_y_front_boundary_kernel_2d ::
  "penalise_kernel \<Rightarrow> field2 \<Rightarrow> field2 \<Rightarrow> error + field2" where
  "penalise_field_y_front_boundary_kernel_2d K y_grid_field field =
     (if shape2 y_grid_field \<noteq> shape2 field then Inl TypeError
      else Inr (loop_over_slice_2d
             (slice_bounds None (Some (kernel_width K)) (fst (shape2 field)))
             (slice_bounds None None (snd (shape2 field)))
             (penalise_field_y_front_boundary_stencil_2d K field y_grid_field) field))"

definition penalise_field_y_back_boundary_stencil_2d ::
  "penalise_kernel \<Rightarrow> field2 \<Rightarrow> field2 \<Rightarrow> nat \<Rightarrow> nat \<Rightarrow> real" where
  "penalise_field_y_back_boundary_stencil_2d K field y_grid_field i j =
     field ! i ! j * y_back_taper (kernel_sine_prefactor K) (kernel_y_grid_field_end K)
                       y_grid_field i j"

definition penalise_field_y_back_boundary_kernel_2d ::
  "penalise_kernel \<Rightarrow> field2 \<Rightarrow> field2 \<Rightarrow> error + field2" where
  "penalise_field_y_back_boundary_kernel_2d K y_grid_field field =
     (if shape2 y_grid_field \<noteq> shape2 field then Inl TypeError
      else Inr (loop_over_slice_2d
             (slice_bounds (Some (- kernel_width K)) None (fst (shape2 field)))
             (slice_bounds None None (snd (shape2 field)))
             (penalise_field_y_back_boundary_stencil_2d K field y_grid_field) field))"

definition penalise_field_boundary_pyst_kernel_2d ::
  "penalise_kernel \<Rightarrow> field2 \<Rightarrow> field2 outcome" where
  "penalise_field_boundary_pyst_kernel_2d K field =
     (let width = kernel_width K;
          s1 = in_place (\<lambda>f. assign_columns
                 (slice_bounds None (Some width) (snd (shape2 f)))
                 (slice_bounds (Some (width - 1)) (Some width) (snd (shape2 f))) f)
               (None, field);
          s2 = in_place (\<lambda>f. assign_columns
                 (slice_bounds (Some (- width)) None (snd (shape2 f)))
                 (slice_bounds (Some (- width)) (Some (- width + 1)) (snd (shape2 f))) f)
               s1;
          s3 = in_place (penalise_field_x_front_boundary_kernel_2d K (kernel_x_grid_field K)) s2;
          s4 = in_place (penalise_field_x_back_boundary_kernel_2d K (kernel_x_grid_field K)) s3;
          s5 = in_place (\<lambda>f. assign_rows
                 (slice_bounds None (Some width) (fst (shape2 f)))
                 (slice_bounds (Some (width - 1)) (Some width) (fst (shape2 f))) f)
               s4;
          s6 = in_place (\<lambda>f. assign_rows
                 (slice_bounds (Some (- width)) None (fst (shape2 f)))
                 (slice_bounds (Some (- width)) (Some (- width + 1)) (fst (shape2 f))) f)
               s5;
          s7 = in_place (penalise_field_y_front_boundary_kernel_2d K (kernel_y_grid_field K)) s6;
          s8 = in_place (penalise_field_y_back_boundary_kernel_2d K (kernel_y_grid_field K)) s7
      in s8)"

text \<open>Coordinate arrays of a uniform grid of spacing \<open>dx\<close>: x grows along the second
  index, y along the first.\<close>

definition uniform_x_grid :: "real \<Rightarrow> real \<Rightarrow> nat \<Rightarrow> nat \<Rightarrow> field2" where
  "uniform_x_grid x0 dx N M = map (\<lambda>i. map (\<lambda>j. x0 + real j * dx) [0..<M]) [0..<N]"

definition uniform_y_grid :: "real \<Rightarrow> real \<Rightarrow> nat \<Rightarrow> nat \<Rightarrow> field2" where
  "uniform_y_grid y0 dx N M = map (\<lambda>i. map (\<lambda>j. y0 + real i * dx) [0..<M]) [0..<N]"

section \<open>Sample grids\<close>

text \<open>Small concrete arrays on which the theorems below are instantiated.\<close>

definition sample_field3 :: "real \<Rightarrow> field3" where
  "sample_field3 a = [[[a, 1, 2], [3, 4 + a, 5], [6, 7, 8]],
                      [[1, a, 1], [2, a * a, 3], [5, 1, 0]],
                      [[2, 2, 1], [0, 1, 4], [a, 3, 3]]]"

definition sample_vector_field3 :: "real \<Rightarrow> field3 list" where
  "sample_vector_field3 a = [sample_field3 a, sample_field3 (a + 1), sample_field3 (a + 2)]"

section \<open>Properties of the arrays and the loop nests\<close>

lemma is_array2_length: "is_array2 N M f \<Longrightarrow> length f = N"
  by (simp add: is_array2_def)

lemma is_array2_row: "is_array2 N M f \<Longrightarrow> i < N \<Longrightarrow> length (f ! i) = M"
  by (simp add: is_array2_def list_all_length)

lemma is_array2_shape: "is_array2 N M f \<Longrightarrow> 0 < N \<Longrightarrow> shape2 f = (N, M)"
  by (cases f) (auto simp: is_array2_def shape2_def)

lemma is_array2_loop:
  "is_array2 N M out \<Longrightarrow> is_array2 N M (loop_over_domain_2d gl rhs out)"
  by (simp add: is_array2_def loop_over_domain_2d_def list_all_length)

lemma loop_over_domain_2d_nth:
  assumes "is_array2 N M out" "i < N" "j < M"
  shows "loop_over_domain_2d gl rhs out ! i ! j =
           (if gl \<le> i \<and> i + gl < N \<and> gl \<le> j \<and> j + gl < M then rhs i j else out ! i ! j)"
  using assms by (simp add: loop_over_domain_2d_def is_array2_length is_array2_row)

lemma is_array2_set_fixed:
  "is_array2 N M f \<Longrightarrow> is_array2 N M (set_fixed_val_at_boundaries_2d w f v)"
  by (simp add: is_array2_def set_fixed_val_at_boundaries_2d_def list_all_length)

lemma set_fixed_val_at_boundaries_2d_nth:
  assumes "is_array2 N M f" "i < N" "j < M"
  shows "set_fixed_val_at_boundaries_2d w f v ! i ! j =
           (if i < w \<or> N \<le> i + w \<or> j < w \<or> M \<le> j + w then v else f ! i ! j)"
  using assms by (simp add: set_fixed_val_at_boundaries_2d_def is_array2_length is_array2_row)

text \<open>On a buffer of two components whose shape is the field's, the curl operator raises
  nothing, and its components come out as follows.\<close>

lemma outplane_field_curl_run:
  assumes "is_array2 N M field" "0 < N" "length curl = 2"
    "is_array2 N M (curl ! 0)" "is_array2 N M (curl ! 1)"
  shows "outplane_field_curl_pyst_kernel_2d curl field prefactor =
    (None,
     [set_fixed_val_at_boundaries_2d 1
        (loop_over_domain_2d 1 (outplane_field_curl_x_stencil_2d field prefactor) (curl ! 0)) 0,
      set_fixed_val_at_boundaries_2d 1
        (loop_over_domain_2d 1 (outplane_field_curl_y_stencil_2d field prefactor) (curl ! 1)) 0])"
proof -
  obtain a b where c: "curl = [a, b]"
    using assms(3) by (cases curl; cases "tl curl") auto
  have s: "shape2 a = shape2 field" "shape2 b = shape2 field"
    using assms c by (simp_all add: is_array2_shape)
  show ?thesis
    by (simp add: outplane_field_curl_pyst_kernel_2d_def on_component_def c s boundary_width_def
        outplane_field_curl_x_pyst_kernel_2d_def outplane_field_curl_y_pyst_kernel_2d_def)
qed

subsection \<open>3D arrays and the two accumulators\<close>

lemma is_array3_length: "is_array3 N M K f \<Longrightarrow> length f = N"
  by (simp add: is_array3_def)

lemma is_array3_plane: "is_array3 N M K f \<Longrightarrow> i < N \<Longrightarrow> is_array2 M K (f ! i)"
  by (simp add: is_array3_def list_all_length)

lemma is_array3_shape: "is_array3 N M K f \<Longrightarrow> 0 < N \<Longrightarrow> 0 < M \<Longrightarrow> shape3 f = (N, M, K)"
  by (cases f) (auto simp: is_array3_def shape3_def is_array2_shape)

lemma is_array3_loop:
  "is_array3 N M K out \<Longrightarrow> is_array3 N M K (loop_over_domain_3d gl rhs out)"
  by (simp add: is_array3_def is_array2_def loop_over_domain_3d_def list_all_length)

lemma loop_over_domain_3d_nth:
  assumes "is_array3 N M K out" "i < N" "j < M" "k < K"
  shows "loop_over_domain_3d gl rhs out ! i ! j ! k =
           (if gl \<le> i \<and> i + gl < N \<and> gl \<le> j \<and> j + gl < M \<and> gl \<le> k \<and> k + gl < K
            then rhs i j k else out ! i ! j ! k)"
proof -
  have p: "is_array2 M K (out ! i)" using assms by (simp add: is_array3_plane)
  show ?thesis
    using assms
    by (simp add: loop_over_domain_3d_def is_array3_length is_array2_length [OF p]
        is_array2_row [OF p])
qed

lemma is_vector_field3_cases:
  assumes "is_vector_field3 N M K v"
  obtains a b c where "v = [a, b, c]" "is_array3 N M K a" "is_array3 N M K b" "is_array3 N M K c"
proof -
  from assms have "length v = 3" by (simp add: is_vector_field3_def)
  then obtain a b c where v: "v = [a, b, c]"
    by (cases v; cases "tl v"; cases "tl (tl v)") auto
  with assms that show ?thesis by (simp add: is_vector_field3_def)
qed

lemma is_vector_field2_cases:
  assumes "is_vector_field2 N M v"
  obtains a b where "v = [a, b]" "is_array2 N M a" "is_array2 N M b"
proof -
  from assms have "length v = 2" by (simp add: is_vector_field2_def)
  then obtain a b where v: "v = [a, b]"
    by (cases v; cases "tl v") auto
  with assms that show ?thesis by (simp add: is_vector_field2_def)
qed

lemma forcing_run:
  assumes "is_vector_field3 N M K vorticity_field" "is_vector_field3 N M K forcing"
    "0 < N" "0 < M"
  shows "update_vorticity_from_velocity_forcing_pyst_kernel_3d vorticity_field forcing prefactor =
    (None,
     [loop_over_domain_3d 1 (update_vorticity_from_velocity_forcing_x_comp_stencil_3d
        (vorticity_field ! 0) (forcing ! 1) (forcing ! 2) prefactor) (vorticity_field ! 0),
      loop_over_domain_3d 1 (update_vorticity_from_velocity_forcing_y_comp_stencil_3d
        (vorticity_field ! 1) (forcing ! 0) (forcing ! 2) prefactor) (vorticity_field ! 1),
      loop_over_domain_3d 1 (update_vorticity_from_velocity_forcing_z_comp_stencil_3d
        (vorticity_field ! 2) (forcing ! 0) (forcing ! 1) prefactor) (vorticity_field ! 2)])"
proof -
  from assms(1) obtain wx wy wz where w: "vorticity_field = [wx, wy, wz]"
    and wa: "is_array3 N M K wx" "is_array3 N M K wy" "is_array3 N M K wz"
    by (rule is_vector_field3_cases)
  from assms(2) obtain fx fy fz where f: "forcing = [fx, fy, fz]"
    and fa: "is_array3 N M K fx" "is_array3 N M K fy" "is_array3 N M K fz"
    by (rule is_vector_field3_cases)
  have s: "shape3 wx = (N, M, K)" "shape3 wy = (N, M, K)" "shape3 wz = (N, M, K)"
    "shape3 fx = (N, M, K)" "shape3 fy = (N, M, K)" "shape3 fz = (N, M, K)"
    using wa fa assms(3,4) by (simp_all add: is_array3_shape)
  show ?thesis
    by (simp add: update_vorticity_from_velocity_forcing_pyst_kernel_3d_def on_component_def
        with_components_def w f s
        update_vorticity_from_velocity_forcing_x_comp_kernel_3d_def
        update_vorticity_from_velocity_forcing_y_comp_kernel_3d_def
        update_vorticity_from_velocity_forcing_z_comp_kernel_3d_def)
qed

lemma penalised_run:
  assumes "is_vector_field3 N M K vorticity_field" "is_vector_field3 N M K P"
    "is_vector_field3 N M K V" "0 < N" "0 < M"
  shows "update_vorticity_from_penalised_velocity_kernel_3d vorticity_field P V prefactor =
    (None,
     [loop_over_domain_3d 1 (update_vorticity_from_penalised_velocity_x_comp_stencil_3d
        (vorticity_field ! 0) (P ! 1) (P ! 2) (V ! 1) (V ! 2) prefactor) (vorticity_field ! 0),
      loop_over_domain_3d 1 (update_vorticity_from_penalised_velocity_y_comp_stencil_3d
        (vorticity_field ! 1) (P ! 0) (P ! 2) (V ! 0) (V ! 2) prefactor) (vorticity_field ! 1),
      loop_over_domain_3d 1 (update_vorticity_from_penalised_velocity_z_comp_stencil_3d
        (vorticity_field ! 2) (P ! 0) (P ! 1) (V ! 0) (V ! 1) prefactor) (vorticity_field ! 2)])"
proof -
  from assms(1) obtain wx wy wz where w: "vorticity_field = [wx, wy, wz]"
    and wa: "is_array3 N M K wx" "is_array3 N M K wy" "is_array3 N M K wz"
    by (rule is_vector_field3_cases)
  from assms(2) obtain px py pz where p: "P = [px, py, pz]"
    and pa: "is_array3 N M K px" "is_array3 N M K py" "is_array3 N M K pz"
    by (rule is_vector_field3_cases)
  from assms(3) obtain vx vy vz where v: "V = [vx, vy, vz]"
    and va: "is_array3 N M K vx" "is_array3 N M K vy" "is_array3 N M K vz"
    by (rule is_vector_field3_cases)
  have s: "shape3 wx = (N, M, K)" "shape3 wy = (N, M, K)" "shape3 wz = (N, M, K)"
    "shape3 px = (N, M, K)" "shape3 py = (N, M, K)" "shape3 pz = (N, M, K)"
    "shape3 vx = (N, M, K)" "shape3 vy = (N, M, K)" "shape3 vz = (N, M, K)"
    using wa pa va assms(4,5) by (simp_all add: is_array3_shape)
  show ?thesis
    by (simp add: update_vorticity_from_penalised_velocity_kernel_3d_def on_component_def
        with_components_def w p v s
        update_vorticity_from_penalised_velocity_x_comp_kernel_3d_def
        update_vorticity_from_penalised_velocity_y_comp_kernel_3d_def
        update_vorticity_from_penalised_velocity_z_comp_kernel_3d_def)
qed

lemma loop_over_domain_3d_cong:
  assumes "is_array3 N M K out"
    and "\<And>i j k. gl \<le> i \<Longrightarrow> i + gl < N \<Longrightarrow> gl \<le> j \<Longrightarrow> j + gl < M \<Longrightarrow> gl \<le> k \<Longrightarrow> k + gl < K
           \<Longrightarrow> rhs i j k = rhs' i j k"
  shows "loop_over_domain_3d gl rhs out = loop_over_domain_3d gl rhs' out"
proof -
  have len: "length out = N" using assms(1) by (rule is_array3_length)
  have rows: "length (out ! i) = M" if "i < N" for i
    using is_array2_length [OF is_array3_plane [OF assms(1) that]] .
  have cols: "length (out ! i ! j) = K" if "i < N" "j < M" for i j
    using is_array2_row [OF is_array3_plane [OF assms(1) that(1)] that(2)] .
  show ?thesis
    unfolding loop_over_domain_3d_def
    by (intro map_cong refl) (simp add: len rows cols assms(2))
qed

lemma field_difference_3d_array:
  assumes "is_array3 N M K p" "is_array3 N M K v"
  shows "is_array3 N M K (field_difference_3d p v)"
  using assms
  by (simp add: field_difference_3d_def is_array3_def is_array2_def list_all_length)

lemma field_difference_3d_nth:
  assumes "is_array3 N M K p" "is_array3 N M K v" "i < N" "j < M" "k < K"
  shows "field_difference_3d p v ! i ! j ! k = p ! i ! j ! k - v ! i ! j ! k"
  using assms
  by (simp add: field_difference_3d_def is_array3_def is_array2_def list_all_length)

lemma velocity_forcing_of_vector_field:
  assumes "is_vector_field3 N M K P" "is_vector_field3 N M K V"
  shows "is_vector_field3 N M K (velocity_forcing_of P V)"
proof -
  from assms(1) obtain px py pz where p: "P = [px, py, pz]"
    and pa: "is_array3 N M K px" "is_array3 N M K py" "is_array3 N M K pz"
    by (rule is_vector_field3_cases)
  from assms(2) obtain vx vy vz where v: "V = [vx, vy, vz]"
    and va: "is_array3 N M K vx" "is_array3 N M K vy" "is_array3 N M K vz"
    by (rule is_vector_field3_cases)
  show ?thesis
    by (simp add: velocity_forcing_of_def p v is_vector_field3_def pa va field_difference_3d_array)
qed

lemma velocity_forcing_of_nth:
  assumes "is_vector_field3 N M K P" "is_vector_field3 N M K V" "c < 3"
  shows "velocity_forcing_of P V ! c = field_difference_3d (P ! c) (V ! c)"
  using assms by (simp add: velocity_forcing_of_def is_vector_field3_def)

lemma is_vector_field3_nth:
  "is_vector_field3 N M K v \<Longrightarrow> c < 3 \<Longrightarrow> is_array3 N M K (v ! c)"
  by (simp add: is_vector_field3_def list_all_length)

subsection \<open>Equality of 2D arrays, cell by cell\<close>

lemma array2_eqI:
  assumes "is_array2 N M a" "is_array2 N M b"
    and "\<And>i j. i < N \<Longrightarrow> j < M \<Longrightarrow> a ! i ! j = b ! i ! j"
  shows "a = b"
proof (rule nth_equalityI)
  show "length a = length b" using assms(1,2) by (simp add: is_array2_length)
next
  fix i assume "i < length a"
  then have i: "i < N" using assms(1) by (simp add: is_array2_length)
  show "a ! i = b ! i"
  proof (rule nth_equalityI)
    show "length (a ! i) = length (b ! i)"
      using assms(1,2) i by (simp add: is_array2_row)
  next
    fix j assume "j < length (a ! i)"
    then have "j < M" using assms(1) i by (simp add: is_array2_row)
    with i show "a ! i ! j = b ! i ! j" by (rule assms(3))
  qed
qed

lemma is_vector_field2_nth:
  "is_vector_field2 N M v \<Longrightarrow> c < 2 \<Longrightarrow> is_array2 N M (v ! c)"
  by (simp add: is_vector_field2_def list_all_length)

lemma is_vector_field2_length: "is_vector_field2 N M v \<Longrightarrow> length v = 2"
  by (simp add: is_vector_field2_def)

subsection \<open>What a generated penalisation kernel holds; slices and their assignments\<close>

lemma gen_penalise_Inr:
  assumes "gen_penalise_field_boundary_pyst_kernel_2d (PyInt w) dx xg yg = Inr K"
  shows "0 < w" "kernel_width K = w" "kernel_sine_prefactor K = (pi / 2) / (real_of_int w * dx)"
    "kernel_x_grid_field K = xg" "kernel_y_grid_field K = yg"
    "index2 xg 0 0 = Inr (kernel_x_grid_field_start K)"
    "index2 yg 0 0 = Inr (kernel_y_grid_field_start K)"
    "index2 xg 0 (- 1) = Inr (kernel_x_grid_field_end K)"
    "index2 yg (- 1) 0 = Inr (kernel_y_grid_field_end K)"
    "real_of_int w * dx \<noteq> 0"
  using assms
  by (auto simp: gen_penalise_field_boundary_pyst_kernel_2d_def split: sum.splits if_splits)

lemma slice_bounds_front: "0 < w \<Longrightarrow> slice_bounds None (Some w) n = (0, min (nat w) n)"
  by (auto simp: slice_bounds_def Let_def)

lemma slice_bounds_back: "0 < w \<Longrightarrow> slice_bounds (Some (- w)) None n = (n - nat w, n)"
  by (auto simp: slice_bounds_def Let_def)

lemma slice_bounds_full: "slice_bounds None None n = (0, n)"
  by (simp add: slice_bounds_def)

lemma slice_bounds_le: "snd (slice_bounds a b n) \<le> n"
  by (auto simp: slice_bounds_def Let_def split: option.splits)

lemma assign_columns_array:
  assumes "is_array2 N M f" "assign_columns dst src f = Inr f'"
  shows "is_array2 N M f'"
  using assms
  by (auto simp: assign_columns_def is_array2_def list_all_length split: if_splits)

lemma assign_columns_keeps:
  assumes "is_array2 N M f" "assign_columns dst src f = Inr f'" "i < N" "j < M"
    "\<not> (fst dst \<le> j \<and> j < snd dst)"
  shows "f' ! i ! j = f ! i ! j"
  using assms
  by (auto simp: assign_columns_def is_array2_def list_all_length split: if_splits)

lemma assign_rows_array:
  assumes "is_array2 N M f" "assign_rows dst src f = Inr f'" "snd src \<le> N"
  shows "is_array2 N M f'"
  using assms
  by (auto simp: assign_rows_def is_array2_def list_all_length split: if_splits)

lemma assign_rows_keeps:
  assumes "is_array2 N M f" "assign_rows dst src f = Inr f'" "i < N"
    "\<not> (fst dst \<le> i \<and> i < snd dst)"
  shows "f' ! i = f ! i"
  using assms
  by (auto simp: assign_rows_def is_array2_def list_all_length split: if_splits)

lemma loop_over_slice_2d_array:
  "is_array2 N M out \<Longrightarrow> is_array2 N M (loop_over_slice_2d rows cols rhs out)"
  by (simp add: is_array2_def loop_over_slice_2d_def list_all_length)

lemma loop_over_slice_2d_nth:
  assumes "is_array2 N M out" "i < N" "j < M"
  shows "loop_over_slice_2d rows cols rhs out ! i ! j =
           (if fst rows \<le> i \<and> i < snd rows \<and> fst cols \<le> j \<and> j < snd cols
            then rhs i j else out ! i ! j)"
  using assms by (simp add: loop_over_slice_2d_def is_array2_length is_array2_row)

lemma in_place_invariant:
  assumes "P (snd st)" and "\<And>b b'. P b \<Longrightarrow> step b = Inr b' \<Longrightarrow> P b'"
  shows "P (snd (in_place step st))"
  using assms by (auto simp: in_place_def split: prod.splits option.splits sum.splits)

lemma columns_step:
  assumes "is_array2 N M b" "0 < N"
    "assign_columns (slice_bounds a c (snd (shape2 b))) (slice_bounds a' c' (snd (shape2 b))) b
       = Inr b'"
    "i < N" "j < M"
    "\<not> (fst (slice_bounds a c M) \<le> j \<and> j < snd (slice_bounds a c M))"
  shows "is_array2 N M b' \<and> b' ! i ! j = b ! i ! j"
proof -
  have sh: "shape2 b = (N, M)" using assms(1,2) by (rule is_array2_shape)
  have e: "assign_columns (slice_bounds a c M) (slice_bounds a' c' M) b = Inr b'"
    using assms(3) by (simp add: sh)
  show ?thesis
    using assign_columns_array [OF assms(1) e] assign_columns_keeps [OF assms(1) e assms(4,5,6)]
    by (rule conjI)
qed

lemma rows_step:
  assumes "is_array2 N M b" "0 < N"
    "assign_rows (slice_bounds a c (fst (shape2 b))) (slice_bounds a' c' (fst (shape2 b))) b
       = Inr b'"
    "i < N" "j < M"
    "\<not> (fst (slice_bounds a c N) \<le> i \<and> i < snd (slice_bounds a c N))"
  shows "is_array2 N M b' \<and> b' ! i ! j = b ! i ! j"
proof -
  have sh: "shape2 b = (N, M)" using assms(1,2) by (rule is_array2_shape)
  have e: "assign_rows (slice_bounds a c N) (slice_bounds a' c' N) b = Inr b'"
    using assms(3) by (simp add: sh)
  have "b' ! i = b ! i"
    using assms(1) e assms(4,6) by (rule assign_rows_keeps)
  then show ?thesis
    using assign_rows_array [OF assms(1) e slice_bounds_le] by simp
qed

lemma kernel_step:
  assumes "is_array2 N M b" "0 < N"
    "(if shape2 g \<noteq> shape2 b then Inl TypeError
      else Inr (loop_over_slice_2d (slice_bounds a c (fst (shape2 b)))
             (slice_bounds a' c' (snd (shape2 b))) rhs b)) = Inr b'"
    "i < N" "j < M"
    "\<not> (fst (slice_bounds a c N) \<le> i \<and> i < snd (slice_bounds a c N)
        \<and> fst (slice_bounds a' c' M) \<le> j \<and> j < snd (slice_bounds a' c' M))"
  shows "is_array2 N M b' \<and> b' ! i ! j = b ! i ! j"
proof -
  have sh: "shape2 b = (N, M)" using assms(1,2) by (rule is_array2_shape)
  have b': "b' = loop_over_slice_2d (slice_bounds a c N) (slice_bounds a' c' M) rhs b"
    using assms(3) by (auto simp: sh split: if_splits)
  have "b' ! i ! j = b ! i ! j"
    unfolding b' loop_over_slice_2d_nth [OF assms(1,4,5)] using assms(6) by auto
  then show ?thesis
    unfolding b' using assms(1) by (simp add: loop_over_slice_2d_array)
qed

subsection \<open>Uniform grids and the sine taper\<close>

lemma uniform_x_grid_array: "is_array2 N M (uniform_x_grid x0 dx N M)"
  by (simp add: uniform_x_grid_def is_array2_def list_all_length)

lemma uniform_y_grid_array: "is_array2 N M (uniform_y_grid y0 dx N M)"
  by (simp add: uniform_y_grid_def is_array2_def list_all_length)

lemma uniform_x_grid_nth:
  "i < N \<Longrightarrow> j < M \<Longrightarrow> uniform_x_grid x0 dx N M ! i ! j = x0 + real j * dx"
  by (simp add: uniform_x_grid_def)

lemma uniform_y_grid_nth:
  "i < N \<Longrightarrow> j < M \<Longrightarrow> uniform_y_grid y0 dx N M ! i ! j = y0 + real i * dx"
  by (simp add: uniform_y_grid_def)

lemma index2_corner:
  assumes "is_array2 N M a" "0 < N" "0 < M"
  shows "index2 a 0 0 = Inr (a ! 0 ! 0)"
    "index2 a 0 (- 1) = Inr (a ! 0 ! (M - 1))"
    "index2 a (- 1) 0 = Inr (a ! (N - 1) ! 0)"
proof -
  have l: "length a = N" "length (a ! 0) = M" "length (a ! (N - 1)) = M"
    using assms by (simp_all add: is_array2_length is_array2_row)
  have n: "nat (int M - 1) = M - 1" "nat (int N - 1) = N - 1" by auto
  have ne: "a ! 0 \<noteq> []" "a ! (N - 1) \<noteq> []" using l(2,3) assms(3) by auto
  show "index2 a 0 0 = Inr (a ! 0 ! 0)"
    using assms(2,3) ne by (simp add: index2_def l Let_def)
  show "index2 a 0 (- 1) = Inr (a ! 0 ! (M - 1))"
    using assms(2,3) ne by (simp add: index2_def l Let_def n)
  show "index2 a (- 1) 0 = Inr (a ! (N - 1) ! 0)"
    using assms(2,3) ne by (simp add: index2_def l Let_def n)
qed

lemma gen_penalise_uniform:
  assumes "0 < w" "dx \<noteq> 0" "0 < N" "0 < M"
  shows "gen_penalise_field_boundary_pyst_kernel_2d (PyInt (int w)) dx
           (uniform_x_grid x0 dx N M) (uniform_y_grid y0 dx N M)
         = Inr \<lparr> kernel_width = int w,
                 kernel_sine_prefactor = (pi / 2) / (real w * dx),
                 kernel_x_grid_field = uniform_x_grid x0 dx N M,
                 kernel_y_grid_field = uniform_y_grid y0 dx N M,
                 kernel_x_grid_field_start = x0,
                 kernel_y_grid_field_start = y0,
                 kernel_x_grid_field_end = x0 + real (M - 1) * dx,
                 kernel_y_grid_field_end = y0 + real (N - 1) * dx \<rparr>"
  using assms
  by (simp add: gen_penalise_field_boundary_pyst_kernel_2d_def
      index2_corner [OF uniform_x_grid_array] index2_corner [OF uniform_y_grid_array]
      uniform_x_grid_nth uniform_y_grid_nth)

lemma taper_angle:
  assumes "0 < w" "dx \<noteq> 0"
  shows "(pi / 2) / (real w * dx) * (real d * dx) = pi / 2 * (real d / real w)"
  using assms by (simp add: field_simps)

lemma taper_angle_range:
  assumes "d < w"
  shows "0 \<le> pi / 2 * (real d / real w)" "pi / 2 * (real d / real w) < pi / 2"
proof -
  have r: "0 \<le> real d / real w" "real d / real w < 1" using assms by simp_all
  show "0 \<le> pi / 2 * (real d / real w)" using r(1) by simp
  have "pi / 2 * (real d / real w) < pi / 2 * 1"
    using r(2) by (intro mult_strict_left_mono) simp_all
  then show "pi / 2 * (real d / real w) < pi / 2" by simp
qed

lemma sin_taper_bounds:
  assumes "d < w"
  shows "0 \<le> sin (pi / 2 * (real d / real w))" "sin (pi / 2 * (real d / real w)) < 1"
proof -
  define t where "t = pi / 2 * (real d / real w)"
  have t: "0 \<le> t" "t < pi / 2"
    unfolding t_def using assms by (rule taper_angle_range)+
  have "t \<le> pi" using t(2) pi_gt_zero by linarith
  with t(1) have "0 \<le> sin t" by (rule sin_ge_zero)
  moreover have "sin t < sin (pi / 2)"
  proof (rule sin_monotone_2pi)
    show "- (pi / 2) \<le> t" using t(1) pi_gt_zero by linarith
    show "t < pi / 2" by (rule t(2))
    show "pi / 2 \<le> pi / 2" by simp
  qed
  ultimately show "0 \<le> sin (pi / 2 * (real d / real w))" "sin (pi / 2 * (real d / real w)) < 1"
    by (simp_all add: t_def)
qed

lemma sin_taper_mono:
  assumes "d \<le> d'" "d' < w"
  shows "sin (pi / 2 * (real d / real w)) \<le> sin (pi / 2 * (real d' / real w))"
proof -
  define t where "t = pi / 2 * (real d / real w)"
  define t' where "t' = pi / 2 * (real d' / real w)"
  have "d < w" using assms by simp
  then have t: "0 \<le> t" unfolding t_def by (rule taper_angle_range)
  have t': "t' < pi / 2" unfolding t'_def using assms(2) by (rule taper_angle_range)
  have "real d / real w \<le> real d' / real w"
    using assms by (simp add: divide_right_mono)
  then have m: "t \<le> t'"
    unfolding t_def t'_def by (intro mult_left_mono) simp_all
  have "sin t \<le> sin t'"
  proof (rule sin_monotone_2pi_le)
    show "- (pi / 2) \<le> t" using t pi_gt_zero by linarith
    show "t \<le> t'" by (rule m)
    show "t' \<le> pi / 2" using t' by simp
  qed
  then show ?thesis by (simp add: t_def t'_def)
qed

lemma taper_phase_uniform:
  assumes "0 < w" "dx \<noteq> 0" "w \<le> N" "w \<le> M" "i < N" "j < M" "d < w"
    and K: "gen_penalise_field_boundary_pyst_kernel_2d (PyInt (int w)) dx
           (uniform_x_grid x0 dx N M) (uniform_y_grid y0 dx N M) = Inr K"
  shows "x_front_taper (kernel_sine_prefactor K) (kernel_x_grid_field_start K)
           (kernel_x_grid_field K) i d = sin (pi / 2 * (real d / real w))"
    "x_back_taper (kernel_sine_prefactor K) (kernel_x_grid_field_end K)
           (kernel_x_grid_field K) i (M - 1 - d) = sin (pi / 2 * (real d / real w))"
    "y_front_taper (kernel_sine_prefactor K) (kernel_y_grid_field_start K)
           (kernel_y_grid_field K) d j = sin (pi / 2 * (real d / real w))"
    "y_back_taper (kernel_sine_prefactor K) (kernel_y_grid_field_end K)
           (kernel_y_grid_field K) (N - 1 - d) j = sin (pi / 2 * (real d / real w))"
proof -
  have pos: "0 < N" "0 < M" using assms(1,3,4) by auto
  have Kd: "K = \<lparr> kernel_width = int w,
                 kernel_sine_prefactor = (pi / 2) / (real w * dx),
                 kernel_x_grid_field = uniform_x_grid x0 dx N M,
                 kernel_y_grid_field = uniform_y_grid y0 dx N M,
                 kernel_x_grid_field_start = x0,
                 kernel_y_grid_field_start = y0,
                 kernel_x_grid_field_end = x0 + real (M - 1) * dx,
                 kernel_y_grid_field_end = y0 + real (N - 1) * dx \<rparr>"
    using K unfolding gen_penalise_uniform [OF assms(1,2) pos] by simp
  have sp: "kernel_sine_prefactor K = (pi / 2) / (real w * dx)" by (simp add: Kd)
  have dM: "d < M" "M - 1 - d < M" and dN: "d < N" "N - 1 - d < N"
    using assms(3,4,7) pos by auto
  have rM: "real (M - 1) - real (M - 1 - d) = real d"
    and rN: "real (N - 1) - real (N - 1 - d) = real d"
    using assms(3,4,7) by auto
  have ang: "(pi / 2) / (real w * dx) * (real d * dx) = pi / 2 * (real d / real w)"
    using assms(1,2) by (rule taper_angle)
  have xf: "kernel_x_grid_field K ! i ! d - kernel_x_grid_field_start K = real d * dx"
    using uniform_x_grid_nth [OF assms(5) dM(1), of x0 dx] by (simp add: Kd)
  have xb: "kernel_x_grid_field_end K - kernel_x_grid_field K ! i ! (M - 1 - d) = real d * dx"
  proof -
    have "kernel_x_grid_field_end K - kernel_x_grid_field K ! i ! (M - 1 - d)
        = (real (M - 1) - real (M - 1 - d)) * dx"
      using uniform_x_grid_nth [OF assms(5) dM(2), of x0 dx] by (simp add: Kd algebra_simps)
    then show ?thesis by (simp only: rM)
  qed
  have yf: "kernel_y_grid_field K ! d ! j - kernel_y_grid_field_start K = real d * dx"
    using uniform_y_grid_nth [OF dN(1) assms(6), of y0 dx] by (simp add: Kd)
  have yb: "kernel_y_grid_field_end K - kernel_y_grid_field K ! (N - 1 - d) ! j = real d * dx"
  proof -
    have "kernel_y_grid_field_end K - kernel_y_grid_field K ! (N - 1 - d) ! j
        = (real (N - 1) - real (N - 1 - d)) * dx"
      using uniform_y_grid_nth [OF dN(2) assms(6), of y0 dx] by (simp add: Kd algebra_simps)
    then show ?thesis by (simp only: rN)
  qed
  show "x_front_taper (kernel_sine_prefactor K) (kernel_x_grid_field_start K)
           (kernel_x_grid_field K) i d = sin (pi / 2 * (real d / real w))"
    unfolding x_front_taper_def by (simp only: xf sp ang)
  show "x_back_taper (kernel_sine_prefactor K) (kernel_x_grid_field_end K)
           (kernel_x_grid_field K) i (M - 1 - d) = sin (pi / 2 * (real d / real w))"
    unfolding x_back_taper_def by (simp only: xb sp ang)
  show "y_front_taper (kernel_sine_prefactor K) (kernel_y_grid_field_start K)
           (kernel_y_grid_field K) d j = sin (pi / 2 * (real d / real w))"
    unfolding y_front_taper_def by (simp only: yf sp ang)
  show "y_back_taper (kernel_sine_prefactor K) (kernel_y_grid_field_end K)
           (kernel_y_grid_field K) (N - 1 - d) j = sin (pi / 2 * (real d / real w))"
    unfolding y_back_taper_def by (simp only: yb sp ang)
qed

lemma gen_penalise_uniform_ex:
  assumes "0 < w" "dx \<noteq> 0" "0 < N" "0 < M"
  shows "\<exists>K. gen_penalise_field_boundary_pyst_kernel_2d (PyInt (int w)) dx
           (uniform_x_grid x0 dx N M) (uniform_y_grid y0 dx N M) = Inr K
    \<and> kernel_sine_prefactor K = (pi / 2) / (real w * dx)"
  unfolding gen_penalise_uniform [OF assms] by simp

subsection \<open>When the penalisation operator returns and when it raises\<close>

text \<open>
  With a width of at least 2 that fits the grid and coordinate arrays of the shape of the
  field, every step of the operator succeeds. With width 1 the source slice of the second
  assignment, \<open>-1:0\<close>, is empty and cannot be broadcast into the one column of the
  destination: the call raises \<open>ValueError\<close> and the field is as it was.
\<close>

lemma slice_bounds_front_source:
  "0 < w \<Longrightarrow> nat w \<le> n \<Longrightarrow> slice_bounds (Some (w - 1)) (Some w) n = (nat w - 1, nat w)"
  by (auto simp: slice_bounds_def Let_def)

lemma slice_bounds_back_source:
  "2 \<le> w \<Longrightarrow> nat w \<le> n \<Longrightarrow>
     slice_bounds (Some (- w)) (Some (- w + 1)) n = (n - nat w, n - nat w + 1)"
  by (auto simp: slice_bounds_def Let_def)

lemma slice_bounds_back_source_width_one:
  "0 < n \<Longrightarrow> slice_bounds (Some (- 1)) (Some (- 1 + 1)) n = (n - 1, 0)"
  by (auto simp: slice_bounds_def Let_def)

lemma in_place_runs:
  assumes "fst st = None \<and> Q (snd st)" "\<And>b. Q b \<Longrightarrow> \<exists>b'. step b = Inr b' \<and> Q b'"
  shows "fst (in_place step st) = None \<and> Q (snd (in_place step st))"
proof -
  obtain b where st: "st = (None, b)" using assms(1) by (cases st) auto
  then have "Q b" using assms(1) by simp
  then obtain b' where "step b = Inr b'" "Q b'" using assms(2) by blast
  then show ?thesis by (simp add: in_place_def st)
qed

lemma assign_columns_broadcast_runs:
  assumes "snd src - fst src = 1"
  shows "\<exists>f'. assign_columns dst src f = Inr f'"
  using assms by (simp add: assign_columns_def)

lemma assign_rows_broadcast_runs:
  assumes "snd src - fst src = 1"
  shows "\<exists>f'. assign_rows dst src f = Inr f'"
  using assms by (simp add: assign_rows_def)

lemma penalisation_runs:
  assumes gen: "gen_penalise_field_boundary_pyst_kernel_2d (PyInt w) dx xg yg = Inr K"
    and w2: "2 \<le> w" and wN: "nat w \<le> N" and wM: "nat w \<le> M"
    and arr: "is_array2 N M field" "is_array2 N M xg" "is_array2 N M yg"
  shows "fst (penalise_field_boundary_pyst_kernel_2d K field) = None"
proof -
  have w: "0 < w" "kernel_width K = w" "kernel_x_grid_field K = xg" "kernel_y_grid_field K = yg"
    using gen by (rule gen_penalise_Inr)+
  have pos: "0 < N" "0 < M" using w2 wN wM by auto
  have sh: "shape2 b = (N, M)" if "is_array2 N M b" for b
    using that pos(1) by (rule is_array2_shape)
  have sg: "shape2 xg = (N, M)" "shape2 yg = (N, M)" using arr(2,3) by (simp_all add: sh)
  have cf: "\<exists>b'. assign_columns (slice_bounds None (Some w) (snd (shape2 b)))
        (slice_bounds (Some (w - 1)) (Some w) (snd (shape2 b))) b = Inr b' \<and> is_array2 N M b'"
    if "is_array2 N M b" for b
  proof -
    have "snd (slice_bounds (Some (w - 1)) (Some w) M)
        - fst (slice_bounds (Some (w - 1)) (Some w) M) = 1"
      unfolding slice_bounds_front_source [OF w(1) wM] using w(1) by simp
    from assign_columns_broadcast_runs [OF this] obtain b'
      where "assign_columns (slice_bounds None (Some w) M)
        (slice_bounds (Some (w - 1)) (Some w) M) b = Inr b'" by blast
    with that show ?thesis by (auto simp: sh intro: assign_columns_array)
  qed
  have cb: "\<exists>b'. assign_columns (slice_bounds (Some (- w)) None (snd (shape2 b)))
        (slice_bounds (Some (- w)) (Some (- w + 1)) (snd (shape2 b))) b = Inr b'
        \<and> is_array2 N M b'"
    if "is_array2 N M b" for b
  proof -
    have "snd (slice_bounds (Some (- w)) (Some (- w + 1)) M)
        - fst (slice_bounds (Some (- w)) (Some (- w + 1)) M) = 1"
      unfolding slice_bounds_back_source [OF w2 wM] by simp
    from assign_columns_broadcast_runs [OF this] obtain b'
      where "assign_columns (slice_bounds (Some (- w)) None M)
        (slice_bounds (Some (- w)) (Some (- w + 1)) M) b = Inr b'" by blast
    with that show ?thesis by (auto simp: sh intro: assign_columns_array)
  qed
  have rf: "\<exists>b'. assign_rows (slice_bounds None (Some w) (fst (shape2 b)))
        (slice_bounds (Some (w - 1)) (Some w) (fst (shape2 b))) b = Inr b' \<and> is_array2 N M b'"
    if "is_array2 N M b" for b
  proof -
    have "snd (slice_bounds (Some (w - 1)) (Some w) N)
        - fst (slice_bounds (Some (w - 1)) (Some w) N) = 1"
      unfolding slice_bounds_front_source [OF w(1) wN] using w(1) by simp
    from assign_rows_broadcast_runs [OF this] obtain b'
      where "assign_rows (slice_bounds None (Some w) N)
        (slice_bounds (Some (w - 1)) (Some w) N) b = Inr b'" by blast
    with that show ?thesis
      by (auto simp: sh intro: assign_rows_array [OF _ _ slice_bounds_le])
  qed
  have rb: "\<exists>b'. assign_rows (slice_bounds (Some (- w)) None (fst (shape2 b)))
        (slice_bounds (Some (- w)) (Some (- w + 1)) (fst (shape2 b))) b = Inr b'
        \<and> is_array2 N M b'"
    if "is_array2 N M b" for b
  proof -
    have "snd (slice_bounds (Some (- w)) (Some (- w + 1)) N)
        - fst (slice_bounds (Some (- w)) (Some (- w + 1)) N) = 1"
      unfolding slice_bounds_back_source [OF w2 wN] by simp
    from assign_rows_broadcast_runs [OF this] obtain b'
      where "assign_rows (slice_bounds (Some (- w)) None N)
        (slice_bounds (Some (- w)) (Some (- w + 1)) N) b = Inr b'" by blast
    with that show ?thesis
      by (auto simp: sh intro: assign_rows_array [OF _ _ slice_bounds_le])
  qed
  have k: "\<exists>b'. penalise_field_x_front_boundary_kernel_2d K xg b = Inr b' \<and> is_array2 N M b'"
    "\<exists>b'. penalise_field_x_back_boundary_kernel_2d K xg b = Inr b' \<and> is_array2 N M b'"
    "\<exists>b'. penalise_field_y_front_boundary_kernel_2d K yg b = Inr b' \<and> is_array2 N M b'"
    "\<exists>b'. penalise_field_y_back_boundary_kernel_2d K yg b = Inr b' \<and> is_array2 N M b'"
    if "is_array2 N M b" for b
    using that
    by (simp_all add: penalise_field_x_front_boundary_kernel_2d_def
        penalise_field_x_back_boundary_kernel_2d_def
        penalise_field_y_front_boundary_kernel_2d_def
        penalise_field_y_back_boundary_kernel_2d_def sg sh loop_over_slice_2d_array)
  have "fst (penalise_field_boundary_pyst_kernel_2d K field) = None
      \<and> is_array2 N M (snd (penalise_field_boundary_pyst_kernel_2d K field))"
    unfolding penalise_field_boundary_pyst_kernel_2d_def Let_def w(2,3,4)
    by (intro in_place_runs [where Q = "is_array2 N M"]; (erule cf cb rf rb k)?)
      (simp add: arr(1))
  then show ?thesis by simp
qed

lemma assign_columns_same:
  assumes "is_array2 N M f"
  shows "assign_columns (lo, hi) (lo, hi) f = Inr f"
proof -
  have "map (\<lambda>r. map (\<lambda>j. if lo \<le> j \<and> j < hi then r ! (lo + (j - lo)) else r ! j)
                  [0..<length r]) f = map (\<lambda>r. r) f"
    by (intro map_cong refl) (auto intro!: nth_equalityI)
  then show ?thesis unfolding assign_columns_def fst_conv snd_conv by simp
qed

lemma penalisation_width_one_raises:
  assumes gen: "gen_penalise_field_boundary_pyst_kernel_2d (PyInt 1) dx xg yg = Inr K"
    and arr: "is_array2 N M field" and pos: "0 < N" "0 < M"
  shows "penalise_field_boundary_pyst_kernel_2d K field = (Some ValueError, field)"
proof -
  have w: "kernel_width K = 1" using gen by (rule gen_penalise_Inr)
  have sh: "shape2 field = (N, M)" using arr pos(1) by (rule is_array2_shape)
  have d1: "slice_bounds None (Some 1) M = (0, 1)"
    using pos(2) by (auto simp: slice_bounds_def Let_def)
  have s1: "slice_bounds (Some (1 - 1)) (Some 1) M = (0, 1)"
    using pos(2) by (auto simp: slice_bounds_def Let_def)
  have d2: "slice_bounds (Some (- 1)) None M = (M - 1, M)"
    using pos(2) by (auto simp: slice_bounds_def Let_def)
  have s2: "slice_bounds (Some (- 1)) (Some (- 1 + 1)) M = (M - 1, 0)"
    using pos(2) by (rule slice_bounds_back_source_width_one)
  have a1: "assign_columns (slice_bounds None (Some 1) M)
              (slice_bounds (Some (1 - 1)) (Some 1) M) field = Inr field"
    unfolding d1 s1 using arr by (rule assign_columns_same)
  have a2: "assign_columns (slice_bounds (Some (- 1)) None M)
              (slice_bounds (Some (- 1)) (Some (- 1 + 1)) M) field = Inl ValueError"
    unfolding d2 s2 using pos(2) by (simp add: assign_columns_def)
  show ?thesis
    unfolding penalise_field_boundary_pyst_kernel_2d_def Let_def w
    by (simp only: in_place_def sh snd_conv fst_conv a1 a2 prod.case option.case sum.case)
qed

subsection \<open>What the sliced kernels and the whole operator leave in the bands\<close>

text \<open>
  On uniform coordinate arrays each sliced kernel multiplies the cell that lies \<open>d\<close> cells
  from the outer edge of its band by sin ((\<pi>/2) d / width) and leaves the cells outside
  its band alone. For a width of at least 2 and bands that do not overlap, the whole
  operator returns, and a band cell away from the corners ends as the value of the
  innermost cell of its band (copied outward by the slice assignment) times that factor.
\<close>

lemma sliced_kernel_value:
  assumes "is_array2 N M b" "0 < N" "shape2 g = (N, M)"
    "i < N" "j < M"
    "fst (slice_bounds a c N) \<le> i \<and> i < snd (slice_bounds a c N)
        \<and> fst (slice_bounds a' c' M) \<le> j \<and> j < snd (slice_bounds a' c' M)"
  shows "\<exists>b'. (if shape2 g \<noteq> shape2 b then Inl TypeError
      else Inr (loop_over_slice_2d (slice_bounds a c (fst (shape2 b)))
             (slice_bounds a' c' (snd (shape2 b))) rhs b)) = Inr b'
        \<and> is_array2 N M b' \<and> b' ! i ! j = rhs i j"
proof -
  have sh: "shape2 b = (N, M)" using assms(1,2) by (rule is_array2_shape)
  have "loop_over_slice_2d (slice_bounds a c N) (slice_bounds a' c' M) rhs b ! i ! j = rhs i j"
    unfolding loop_over_slice_2d_nth [OF assms(1,4,5)] using assms(6) by simp
  then show ?thesis
    using assms(1) by (simp add: sh assms(3) loop_over_slice_2d_array)
qed

lemma band_kernels_uniform:
  assumes w: "0 < w" and dx: "dx \<noteq> 0" and wN: "w \<le> N" and wM: "w \<le> M"
    and i: "i < N" and j: "j < M" and d: "d < w"
    and arr: "is_array2 N M field"
    and K: "gen_penalise_field_boundary_pyst_kernel_2d (PyInt (int w)) dx
           (uniform_x_grid x0 dx N M) (uniform_y_grid y0 dx N M) = Inr K"
  shows "\<exists>f'. penalise_field_x_front_boundary_kernel_2d K (kernel_x_grid_field K) field = Inr f'
           \<and> is_array2 N M f'
           \<and> f' ! i ! d = field ! i ! d * sin (pi / 2 * (real d / real w))"
    "\<exists>f'. penalise_field_x_back_boundary_kernel_2d K (kernel_x_grid_field K) field = Inr f'
           \<and> is_array2 N M f'
           \<and> f' ! i ! (M - 1 - d) = field ! i ! (M - 1 - d) * sin (pi / 2 * (real d / real w))"
    "\<exists>f'. penalise_field_y_front_boundary_kernel_2d K (kernel_y_grid_field K) field = Inr f'
           \<and> is_array2 N M f'
           \<and> f' ! d ! j = field ! d ! j * sin (pi / 2 * (real d / real w))"
    "\<exists>f'. penalise_field_y_back_boundary_kernel_2d K (kernel_y_grid_field K) field = Inr f'
           \<and> is_array2 N M f'
           \<and> f' ! (N - 1 - d) ! j = field ! (N - 1 - d) ! j * sin (pi / 2 * (real d / real w))"
proof -
  have pos: "0 < N" "0 < M" using w wN wM by auto
  have kw: "0 < int w" "kernel_width K = int w"
    "kernel_x_grid_field K = uniform_x_grid x0 dx N M"
    "kernel_y_grid_field K = uniform_y_grid y0 dx N M"
    using K by (rule gen_penalise_Inr)+
  have sg: "shape2 (uniform_x_grid x0 dx N M) = (N, M)" "shape2 (uniform_y_grid y0 dx N M) = (N, M)"
    using pos(1) by (simp_all add: is_array2_shape uniform_x_grid_array uniform_y_grid_array)
  have dM: "d < M" "M - 1 - d < M" and dN: "d < N" "N - 1 - d < N"
    using wN wM d pos by auto
  note t = taper_phase_uniform [OF w dx wN wM i j d K]
  have in_xf: "fst (slice_bounds None None N) \<le> i \<and> i < snd (slice_bounds None None N)
      \<and> fst (slice_bounds None (Some (int w)) M) \<le> d
      \<and> d < snd (slice_bounds None (Some (int w)) M)"
    using i d wM by (simp add: slice_bounds_full slice_bounds_front [OF kw(1)])
  have in_xb: "fst (slice_bounds None None N) \<le> i \<and> i < snd (slice_bounds None None N)
      \<and> fst (slice_bounds (Some (- int w)) None M) \<le> M - 1 - d
      \<and> M - 1 - d < snd (slice_bounds (Some (- int w)) None M)"
    using i d wM pos by (auto simp: slice_bounds_full slice_bounds_back [OF kw(1)])
  have in_yf: "fst (slice_bounds None (Some (int w)) N) \<le> d
      \<and> d < snd (slice_bounds None (Some (int w)) N)
      \<and> fst (slice_bounds None None M) \<le> j \<and> j < snd (slice_bounds None None M)"
    using j d wN by (simp add: slice_bounds_full slice_bounds_front [OF kw(1)])
  have in_yb: "fst (slice_bounds (Some (- int w)) None N) \<le> N - 1 - d
      \<and> N - 1 - d < snd (slice_bounds (Some (- int w)) None N)
      \<and> fst (slice_bounds None None M) \<le> j \<and> j < snd (slice_bounds None None M)"
    using j d wN pos by (auto simp: slice_bounds_full slice_bounds_back [OF kw(1)])
  show "\<exists>f'. penalise_field_x_front_boundary_kernel_2d K (kernel_x_grid_field K) field = Inr f'
           \<and> is_array2 N M f'
           \<and> f' ! i ! d = field ! i ! d * sin (pi / 2 * (real d / real w))"
    using sliced_kernel_value [OF arr pos(1) sg(1) i dM(1) in_xf,
        of "penalise_field_x_front_boundary_stencil_2d K field (kernel_x_grid_field K)"]
    unfolding penalise_field_x_front_boundary_kernel_2d_def kw(2)
      penalise_field_x_front_boundary_stencil_2d_def t(1)
    by (simp only: kw(3))
  show "\<exists>f'. penalise_field_x_back_boundary_kernel_2d K (kernel_x_grid_field K) field = Inr f'
           \<and> is_array2 N M f'
           \<and> f' ! i ! (M - 1 - d) = field ! i ! (M - 1 - d) * sin (pi / 2 * (real d / real w))"
    using sliced_kernel_value [OF arr pos(1) sg(1) i dM(2) in_xb,
        of "penalise_field_x_back_boundary_stencil_2d K field (kernel_x_grid_field K)"]
    unfolding penalise_field_x_back_boundary_kernel_2d_def kw(2)
      penalise_field_x_back_boundary_stencil_2d_def t(2)
    by (simp only: kw(3))
  show "\<exists>f'. penalise_field_y_front_boundary_kernel_2d K (kernel_y_grid_field K) field = Inr f'
           \<and> is_array2 N M f'
           \<and> f' ! d ! j = field ! d ! j * sin (pi / 2 * (real d / real w))"
    using sliced_kernel_value [OF arr pos(1) sg(2) dN(1) j in_yf,
        of "penalise_field_y_front_boundary_stencil_2d K field (kernel_y_grid_field K)"]
    unfolding penalise_field_y_front_boundary_kernel_2d_def kw(2)
      penalise_field_y_front_boundary_stencil_2d_def t(3)
    by (simp only: kw(4))
  show "\<exists>f'. penalise_field_y_back_boundary_kernel_2d K (kernel_y_grid_field K) field = Inr f'
           \<and> is_array2 N M f'
           \<and> f' ! (N - 1 - d) ! j = field ! (N - 1 - d) ! j * sin (pi / 2 * (real d / real w))"
    using sliced_kernel_value [OF arr pos(1) sg(2) dN(2) j in_yb,
        of "penalise_field_y_back_boundary_stencil_2d K field (kernel_y_grid_field K)"]
    unfolding penalise_field_y_back_boundary_kernel_2d_def kw(2)
      penalise_field_y_back_boundary_stencil_2d_def t(4)
    by (simp only: kw(4))
qed

lemma band_kernels_uniform_all:
  assumes w: "0 < w" and dx: "dx \<noteq> 0" and wN: "w \<le> N" and wM: "w \<le> M"
    and arr: "is_array2 N M field"
    and K: "gen_penalise_field_boundary_pyst_kernel_2d (PyInt (int w)) dx
           (uniform_x_grid x0 dx N M) (uniform_y_grid y0 dx N M) = Inr K"
  shows "\<exists>f'. penalise_field_x_front_boundary_kernel_2d K (kernel_x_grid_field K) field = Inr f'
      \<and> (\<forall>i d. i < N \<and> d < w \<longrightarrow>
            f' ! i ! d = field ! i ! d * sin (pi / 2 * (real d / real w)))"
    "\<exists>f'. penalise_field_x_back_boundary_kernel_2d K (kernel_x_grid_field K) field = Inr f'
      \<and> (\<forall>i d. i < N \<and> d < w \<longrightarrow>
            f' ! i ! (M - 1 - d) = field ! i ! (M - 1 - d) * sin (pi / 2 * (real d / real w)))"
    "\<exists>f'. penalise_field_y_front_boundary_kernel_2d K (kernel_y_grid_field K) field = Inr f'
      \<and> (\<forall>j d. j < M \<and> d < w \<longrightarrow>
            f' ! d ! j = field ! d ! j * sin (pi / 2 * (real d / real w)))"
    "\<exists>f'. penalise_field_y_back_boundary_kernel_2d K (kernel_y_grid_field K) field = Inr f'
      \<and> (\<forall>j d. j < M \<and> d < w \<longrightarrow>
            f' ! (N - 1 - d) ! j = field ! (N - 1 - d) ! j * sin (pi / 2 * (real d / real w)))"
proof -
  have pos: "0 < N" "0 < M" using w wN wM by auto
  note b = band_kernels_uniform [OF w dx wN wM _ _ _ arr K]
  obtain fxf where xf: "penalise_field_x_front_boundary_kernel_2d K (kernel_x_grid_field K) field
      = Inr fxf"
    using b(1) [OF pos w] by blast
  obtain fxb where xb: "penalise_field_x_back_boundary_kernel_2d K (kernel_x_grid_field K) field
      = Inr fxb"
    using b(2) [OF pos w] by blast
  obtain fyf where yf: "penalise_field_y_front_boundary_kernel_2d K (kernel_y_grid_field K) field
      = Inr fyf"
    using b(3) [OF pos w] by blast
  obtain fyb where yb: "penalise_field_y_back_boundary_kernel_2d K (kernel_y_grid_field K) field
      = Inr fyb"
    using b(4) [OF pos w] by blast
  have 1: "fxf ! i ! d = field ! i ! d * sin (pi / 2 * (real d / real w))"
    if "i < N" "d < w" for i d
    using b(1) [OF that(1) pos(2) that(2)] unfolding xf by auto
  have 2: "fxb ! i ! (M - 1 - d) = field ! i ! (M - 1 - d) * sin (pi / 2 * (real d / real w))"
    if "i < N" "d < w" for i d
    using b(2) [OF that(1) pos(2) that(2)] unfolding xb by auto
  have 3: "fyf ! d ! j = field ! d ! j * sin (pi / 2 * (real d / real w))"
    if "j < M" "d < w" for j d
    using b(3) [OF pos(1) that(1) that(2)] unfolding yf by auto
  have 4: "fyb ! (N - 1 - d) ! j = field ! (N - 1 - d) ! j * sin (pi / 2 * (real d / real w))"
    if "j < M" "d < w" for j d
    using b(4) [OF pos(1) that(1) that(2)] unfolding yb by auto
  show "\<exists>f'. penalise_field_x_front_boundary_kernel_2d K (kernel_x_grid_field K) field = Inr f'
      \<and> (\<forall>i d. i < N \<and> d < w \<longrightarrow>
            f' ! i ! d = field ! i ! d * sin (pi / 2 * (real d / real w)))"
    using xf 1 by blast
  show "\<exists>f'. penalise_field_x_back_boundary_kernel_2d K (kernel_x_grid_field K) field = Inr f'
      \<and> (\<forall>i d. i < N \<and> d < w \<longrightarrow>
            f' ! i ! (M - 1 - d) = field ! i ! (M - 1 - d) * sin (pi / 2 * (real d / real w)))"
    using xb 2 by blast
  show "\<exists>f'. penalise_field_y_front_boundary_kernel_2d K (kernel_y_grid_field K) field = Inr f'
      \<and> (\<forall>j d. j < M \<and> d < w \<longrightarrow>
            f' ! d ! j = field ! d ! j * sin (pi / 2 * (real d / real w)))"
    using yf 3 by blast
  show "\<exists>f'. penalise_field_y_back_boundary_kernel_2d K (kernel_y_grid_field K) field = Inr f'
      \<and> (\<forall>j d. j < M \<and> d < w \<longrightarrow>
            f' ! (N - 1 - d) ! j = field ! (N - 1 - d) ! j * sin (pi / 2 * (real d / real w)))"
    using yb 4 by blast
qed

lemma kernel_results_uniform:
  assumes w: "0 < w" and dx: "dx \<noteq> 0" and wN: "w \<le> N" and wM: "w \<le> M"
    and arr: "is_array2 N M b"
    and K: "gen_penalise_field_boundary_pyst_kernel_2d (PyInt (int w)) dx
           (uniform_x_grid x0 dx N M) (uniform_y_grid y0 dx N M) = Inr K"
  shows "\<exists>b'. penalise_field_x_front_boundary_kernel_2d K (kernel_x_grid_field K) b = Inr b'
      \<and> is_array2 N M b'
      \<and> (\<forall>i j. i < N \<and> j < M \<longrightarrow> b' ! i ! j =
            (if j < w then b ! i ! j * sin (pi / 2 * (real j / real w)) else b ! i ! j))"
    "\<exists>b'. penalise_field_x_back_boundary_kernel_2d K (kernel_x_grid_field K) b = Inr b'
      \<and> is_array2 N M b'
      \<and> (\<forall>i j. i < N \<and> j < M \<longrightarrow> b' ! i ! j =
            (if M - w \<le> j then b ! i ! j * sin (pi / 2 * (real (M - 1 - j) / real w))
             else b ! i ! j))"
    "\<exists>b'. penalise_field_y_front_boundary_kernel_2d K (kernel_y_grid_field K) b = Inr b'
      \<and> is_array2 N M b'
      \<and> (\<forall>i j. i < N \<and> j < M \<longrightarrow> b' ! i ! j =
            (if i < w then b ! i ! j * sin (pi / 2 * (real i / real w)) else b ! i ! j))"
    "\<exists>b'. penalise_field_y_back_boundary_kernel_2d K (kernel_y_grid_field K) b = Inr b'
      \<and> is_array2 N M b'
      \<and> (\<forall>i j. i < N \<and> j < M \<longrightarrow> b' ! i ! j =
            (if N - w \<le> i then b ! i ! j * sin (pi / 2 * (real (N - 1 - i) / real w))
             else b ! i ! j))"
proof -
  have pos: "0 < N" "0 < M" using w wN wM by auto
  have kw: "0 < int w" "kernel_width K = int w"
    using K by (rule gen_penalise_Inr)+
  note band = band_kernels_uniform [OF w dx wN wM _ _ _ arr K]
  obtain fxf where xf: "penalise_field_x_front_boundary_kernel_2d K (kernel_x_grid_field K) b
      = Inr fxf" and axf: "is_array2 N M fxf"
    using band(1) [OF pos w] by blast
  obtain fxb where xb: "penalise_field_x_back_boundary_kernel_2d K (kernel_x_grid_field K) b
      = Inr fxb" and axb: "is_array2 N M fxb"
    using band(2) [OF pos w] by blast
  obtain fyf where yf: "penalise_field_y_front_boundary_kernel_2d K (kernel_y_grid_field K) b
      = Inr fyf" and ayf: "is_array2 N M fyf"
    using band(3) [OF pos w] by blast
  obtain fyb where yb: "penalise_field_y_back_boundary_kernel_2d K (kernel_y_grid_field K) b
      = Inr fyb" and ayb: "is_array2 N M fyb"
    using band(4) [OF pos w] by blast
  have 1: "fxf ! i ! j = (if j < w then b ! i ! j * sin (pi / 2 * (real j / real w))
      else b ! i ! j)" if "i < N" "j < M" for i j
  proof (cases "j < w")
    case True
    then show ?thesis using band(1) [OF that(1) pos(2) True] unfolding xf by auto
  next
    case False
    have "\<not> (fst (slice_bounds None None N) \<le> i \<and> i < snd (slice_bounds None None N)
        \<and> fst (slice_bounds None (Some (int w)) M) \<le> j
        \<and> j < snd (slice_bounds None (Some (int w)) M))"
      using False by (simp add: slice_bounds_front [OF kw(1)])
    from kernel_step [OF arr pos(1)
        xf [unfolded penalise_field_x_front_boundary_kernel_2d_def kw(2)] that this]
    show ?thesis using False by simp
  qed
  have 2: "fxb ! i ! j = (if M - w \<le> j
      then b ! i ! j * sin (pi / 2 * (real (M - 1 - j) / real w)) else b ! i ! j)"
    if "i < N" "j < M" for i j
  proof (cases "M - w \<le> j")
    case True
    have d: "M - 1 - j < w" "M - 1 - (M - 1 - j) = j" using True that(2) wM w by auto
    show ?thesis
      using band(2) [OF that(1) pos(2) d(1)] True unfolding xb d(2) by auto
  next
    case False
    have "\<not> (fst (slice_bounds None None N) \<le> i \<and> i < snd (slice_bounds None None N)
        \<and> fst (slice_bounds (Some (- int w)) None M) \<le> j
        \<and> j < snd (slice_bounds (Some (- int w)) None M))"
      using False by (simp add: slice_bounds_back [OF kw(1)])
    from kernel_step [OF arr pos(1)
        xb [unfolded penalise_field_x_back_boundary_kernel_2d_def kw(2)] that this]
    show ?thesis using False by simp
  qed
  have 3: "fyf ! i ! j = (if i < w then b ! i ! j * sin (pi / 2 * (real i / real w))
      else b ! i ! j)" if "i < N" "j < M" for i j
  proof (cases "i < w")
    case True
    then show ?thesis using band(3) [OF pos(1) that(2) True] unfolding yf by auto
  next
    case False
    have "\<not> (fst (slice_bounds None (Some (int w)) N) \<le> i
        \<and> i < snd (slice_bounds None (Some (int w)) N)
        \<and> fst (slice_bounds None None M) \<le> j \<and> j < snd (slice_bounds None None M))"
      using False by (simp add: slice_bounds_front [OF kw(1)])
    from kernel_step [OF arr pos(1)
        yf [unfolded penalise_field_y_front_boundary_kernel_2d_def kw(2)] that this]
    show ?thesis using False by simp
  qed
  have 4: "fyb ! i ! j = (if N - w \<le> i
      then b ! i ! j * sin (pi / 2 * (real (N - 1 - i) / real w)) else b ! i ! j)"
    if "i < N" "j < M" for i j
  proof (cases "N - w \<le> i")
    case True
    have d: "N - 1 - i < w" "N - 1 - (N - 1 - i) = i" using True that(1) wN w by auto
    show ?thesis
      using band(4) [OF pos(1) that(2) d(1)] True unfolding yb d(2) by auto
  next
    case False
    have "\<not> (fst (slice_bounds (Some (- int w)) None N) \<le> i
        \<and> i < snd (slice_bounds (Some (- int w)) None N)
        \<and> fst (slice_bounds None None M) \<le> j \<and> j < snd (slice_bounds None None M))"
      using False by (simp add: slice_bounds_back [OF kw(1)])
    from kernel_step [OF arr pos(1)
        yb [unfolded penalise_field_y_back_boundary_kernel_2d_def kw(2)] that this]
    show ?thesis using False by simp
  qed
  show "\<exists>b'. penalise_field_x_front_boundary_kernel_2d K (kernel_x_grid_field K) b = Inr b'
      \<and> is_array2 N M b'
      \<and> (\<forall>i j. i < N \<and> j < M \<longrightarrow> b' ! i ! j =
            (if j < w then b ! i ! j * sin (pi / 2 * (real j / real w)) else b ! i ! j))"
    using xf axf 1 by blast
  show "\<exists>b'. penalise_field_x_back_boundary_kernel_2d K (kernel_x_grid_field K) b = Inr b'
      \<and> is_array2 N M b'
      \<and> (\<forall>i j. i < N \<and> j < M \<longrightarrow> b' ! i ! j =
            (if M - w \<le> j then b ! i ! j * sin (pi / 2 * (real (M - 1 - j) / real w))
             else b ! i ! j))"
    using xb axb 2 by blast
  show "\<exists>b'. penalise_field_y_front_boundary_kernel_2d K (kernel_y_grid_field K) b = Inr b'
      \<and> is_array2 N M b'
      \<and> (\<forall>i j. i < N \<and> j < M \<longrightarrow> b' ! i ! j =
            (if i < w then b ! i ! j * sin (pi / 2 * (real i / real w)) else b ! i ! j))"
    using yf ayf 3 by blast
  show "\<exists>b'. penalise_field_y_back_boundary_kernel_2d K (kernel_y_grid_field K) b = Inr b'
      \<and> is_array2 N M b'
      \<and> (\<forall>i j. i < N \<and> j < M \<longrightarrow> b' ! i ! j =
            (if N - w \<le> i then b ! i ! j * sin (pi / 2 * (real (N - 1 - i) / real w))
             else b ! i ! j))"
    using yb ayb 4 by blast
qed

lemma broadcast_columns:
  assumes arr: "is_array2 N M b" and w: "2 \<le> w" and wM: "w \<le> M"
  shows "\<exists>b'. assign_columns (slice_bounds None (Some (int w)) M)
            (slice_bounds (Some (int w - 1)) (Some (int w)) M) b = Inr b'
      \<and> is_array2 N M b'
      \<and> (\<forall>i j. i < N \<and> j < M \<longrightarrow> b' ! i ! j = (if j < w then b ! i ! (w - 1) else b ! i ! j))"
    "\<exists>b'. assign_columns (slice_bounds (Some (- int w)) None M)
            (slice_bounds (Some (- int w)) (Some (- int w + 1)) M) b = Inr b'
      \<and> is_array2 N M b'
      \<and> (\<forall>i j. i < N \<and> j < M \<longrightarrow> b' ! i ! j = (if M - w \<le> j then b ! i ! (M - w) else b ! i ! j))"
proof -
  have iw: "0 < int w" "2 \<le> int w" "nat (int w) \<le> M" using w wM by auto
  have s1: "slice_bounds None (Some (int w)) M = (0, w)"
    using wM by (simp add: slice_bounds_front [OF iw(1)])
  have s2: "slice_bounds (Some (int w - 1)) (Some (int w)) M = (w - 1, w)"
    using slice_bounds_front_source [OF iw(1,3)] by simp
  have s3: "slice_bounds (Some (- int w)) None M = (M - w, M)"
    by (simp add: slice_bounds_back [OF iw(1)])
  have s4: "slice_bounds (Some (- int w)) (Some (- int w + 1)) M = (M - w, M - w + 1)"
    using slice_bounds_back_source [OF iw(2,3)] by simp
  have r: "length (b ! i) = M" if "i < N" for i using arr that by (rule is_array2_row)
  have l: "length b = N" using arr by (rule is_array2_length)
  show "\<exists>b'. assign_columns (slice_bounds None (Some (int w)) M)
            (slice_bounds (Some (int w - 1)) (Some (int w)) M) b = Inr b'
      \<and> is_array2 N M b'
      \<and> (\<forall>i j. i < N \<and> j < M \<longrightarrow> b' ! i ! j = (if j < w then b ! i ! (w - 1) else b ! i ! j))"
    unfolding s1 s2 using w arr
    by (auto simp: assign_columns_def is_array2_def list_all_length)
  show "\<exists>b'. assign_columns (slice_bounds (Some (- int w)) None M)
            (slice_bounds (Some (- int w)) (Some (- int w + 1)) M) b = Inr b'
      \<and> is_array2 N M b'
      \<and> (\<forall>i j. i < N \<and> j < M \<longrightarrow> b' ! i ! j = (if M - w \<le> j then b ! i ! (M - w) else b ! i ! j))"
    unfolding s3 s4 using w wM arr
    by (auto simp: assign_columns_def is_array2_def list_all_length)
qed

lemma broadcast_rows:
  assumes arr: "is_array2 N M b" and w: "2 \<le> w" and wN: "w \<le> N"
  shows "\<exists>b'. assign_rows (slice_bounds None (Some (int w)) N)
            (slice_bounds (Some (int w - 1)) (Some (int w)) N) b = Inr b'
      \<and> is_array2 N M b'
      \<and> (\<forall>i j. i < N \<and> j < M \<longrightarrow> b' ! i ! j = (if i < w then b ! (w - 1) ! j else b ! i ! j))"
    "\<exists>b'. assign_rows (slice_bounds (Some (- int w)) None N)
            (slice_bounds (Some (- int w)) (Some (- int w + 1)) N) b = Inr b'
      \<and> is_array2 N M b'
      \<and> (\<forall>i j. i < N \<and> j < M \<longrightarrow> b' ! i ! j = (if N - w \<le> i then b ! (N - w) ! j else b ! i ! j))"
proof -
  have iw: "0 < int w" "2 \<le> int w" "nat (int w) \<le> N" using w wN by auto
  have s1: "slice_bounds None (Some (int w)) N = (0, w)"
    using wN by (simp add: slice_bounds_front [OF iw(1)])
  have s2: "slice_bounds (Some (int w - 1)) (Some (int w)) N = (w - 1, w)"
    using slice_bounds_front_source [OF iw(1,3)] by simp
  have s3: "slice_bounds (Some (- int w)) None N = (N - w, N)"
    by (simp add: slice_bounds_back [OF iw(1)])
  have s4: "slice_bounds (Some (- int w)) (Some (- int w + 1)) N = (N - w, N - w + 1)"
    using slice_bounds_back_source [OF iw(2,3)] by simp
  show "\<exists>b'. assign_rows (slice_bounds None (Some (int w)) N)
            (slice_bounds (Some (int w - 1)) (Some (int w)) N) b = Inr b'
      \<and> is_array2 N M b'
      \<and> (\<forall>i j. i < N \<and> j < M \<longrightarrow> b' ! i ! j = (if i < w then b ! (w - 1) ! j else b ! i ! j))"
    unfolding s1 s2 using w wN arr
    by (auto simp: assign_rows_def is_array2_def list_all_length)
  show "\<exists>b'. assign_rows (slice_bounds (Some (- int w)) None N)
            (slice_bounds (Some (- int w)) (Some (- int w + 1)) N) b = Inr b'
      \<and> is_array2 N M b'
      \<and> (\<forall>i j. i < N \<and> j < M \<longrightarrow> b' ! i ! j = (if N - w \<le> i then b ! (N - w) ! j else b ! i ! j))"
    unfolding s3 s4 using w wN arr
    by (auto simp: assign_rows_def is_array2_def list_all_length)
qed

lemma penalisation_band_values:
  assumes w: "2 \<le> w" and dx: "dx \<noteq> 0" and wN: "2 * w \<le> N" and wM: "2 * w \<le> M"
    and arr: "is_array2 N M field"
    and K: "gen_penalise_field_boundary_pyst_kernel_2d (PyInt (int w)) dx
           (uniform_x_grid x0 dx N M) (uniform_y_grid y0 dx N M) = Inr K"
    and i: "w \<le> i" "i + w < N" and j: "w \<le> j" "j + w < M" and d: "d < w"
  shows "\<exists>f'. penalise_field_boundary_pyst_kernel_2d K field = (None, f')
      \<and> f' ! i ! d = field ! i ! (w - 1) * sin (pi / 2 * (real d / real w))
      \<and> f' ! i ! (M - 1 - d) = field ! i ! (M - w) * sin (pi / 2 * (real d / real w))
      \<and> f' ! d ! j = field ! (w - 1) ! j * sin (pi / 2 * (real d / real w))
      \<and> f' ! (N - 1 - d) ! j = field ! (N - w) ! j * sin (pi / 2 * (real d / real w))
      \<and> f' ! i ! j = field ! i ! j"
proof -
  have w0: "0 < w" and wN': "w \<le> N" and wM': "w \<le> M" and pos: "0 < N" "0 < M"
    using w wN wM by auto
  have kw: "kernel_width K = int w" using K by (rule gen_penalise_Inr)
  have sh: "shape2 b = (N, M)" if "is_array2 N M b" for b
    using that pos(1) by (rule is_array2_shape)
  obtain b1 where e1: "assign_columns (slice_bounds None (Some (int w)) M)
            (slice_bounds (Some (int w - 1)) (Some (int w)) M) field = Inr b1"
    and a1: "is_array2 N M b1"
    and c1: "\<And>i j. i < N \<Longrightarrow> j < M \<Longrightarrow>
        b1 ! i ! j = (if j < w then field ! i ! (w - 1) else field ! i ! j)"
    using broadcast_columns(1) [OF arr w wM'] by blast
  obtain b2 where e2: "assign_columns (slice_bounds (Some (- int w)) None M)
            (slice_bounds (Some (- int w)) (Some (- int w + 1)) M) b1 = Inr b2"
    and a2: "is_array2 N M b2"
    and c2: "\<And>i j. i < N \<Longrightarrow> j < M \<Longrightarrow>
        b2 ! i ! j = (if M - w \<le> j then b1 ! i ! (M - w) else b1 ! i ! j)"
    using broadcast_columns(2) [OF a1 w wM'] by blast
  note k2 = kernel_results_uniform [OF w0 dx wN' wM' _ K]
  obtain b3 where e3: "penalise_field_x_front_boundary_kernel_2d K (kernel_x_grid_field K) b2
        = Inr b3"
    and a3: "is_array2 N M b3"
    and c3: "\<And>i j. i < N \<Longrightarrow> j < M \<Longrightarrow> b3 ! i ! j =
            (if j < w then b2 ! i ! j * sin (pi / 2 * (real j / real w)) else b2 ! i ! j)"
    using k2(1) [OF a2] by blast
  obtain b4 where e4: "penalise_field_x_back_boundary_kernel_2d K (kernel_x_grid_field K) b3
        = Inr b4"
    and a4: "is_array2 N M b4"
    and c4: "\<And>i j. i < N \<Longrightarrow> j < M \<Longrightarrow> b4 ! i ! j =
            (if M - w \<le> j then b3 ! i ! j * sin (pi / 2 * (real (M - 1 - j) / real w))
             else b3 ! i ! j)"
    using k2(2) [OF a3] by blast
  obtain b5 where e5: "assign_rows (slice_bounds None (Some (int w)) N)
            (slice_bounds (Some (int w - 1)) (Some (int w)) N) b4 = Inr b5"
    and a5: "is_array2 N M b5"
    and c5: "\<And>i j. i < N \<Longrightarrow> j < M \<Longrightarrow>
        b5 ! i ! j = (if i < w then b4 ! (w - 1) ! j else b4 ! i ! j)"
    using broadcast_rows(1) [OF a4 w wN'] by blast
  obtain b6 where e6: "assign_rows (slice_bounds (Some (- int w)) None N)
            (slice_bounds (Some (- int w)) (Some (- int w + 1)) N) b5 = Inr b6"
    and a6: "is_array2 N M b6"
    and c6: "\<And>i j. i < N \<Longrightarrow> j < M \<Longrightarrow>
        b6 ! i ! j = (if N - w \<le> i then b5 ! (N - w) ! j else b5 ! i ! j)"
    using broadcast_rows(2) [OF a5 w wN'] by blast
  obtain b7 where e7: "penalise_field_y_front_boundary_kernel_2d K (kernel_y_grid_field K) b6
        = Inr b7"
    and a7: "is_array2 N M b7"
    and c7: "\<And>i j. i < N \<Longrightarrow> j < M \<Longrightarrow> b7 ! i ! j =
            (if i < w then b6 ! i ! j * sin (pi / 2 * (real i / real w)) else b6 ! i ! j)"
    using k2(3) [OF a6] by blast
  obtain b8 where e8: "penalise_field_y_back_boundary_kernel_2d K (kernel_y_grid_field K) b7
        = Inr b8"
    and a8: "is_array2 N M b8"
    and c8: "\<And>i j. i < N \<Longrightarrow> j < M \<Longrightarrow> b8 ! i ! j =
            (if N - w \<le> i then b7 ! i ! j * sin (pi / 2 * (real (N - 1 - i) / real w))
             else b7 ! i ! j)"
    using k2(4) [OF a7] by blast
  have run: "penalise_field_boundary_pyst_kernel_2d K field = (None, b8)"
    unfolding penalise_field_boundary_pyst_kernel_2d_def Let_def kw
    using e1 e2 e3 e4 e5 e6 e7 e8
    by (simp add: in_place_def sh [OF arr] sh [OF a1] sh [OF a2] sh [OF a3] sh [OF a4]
        sh [OF a5] sh [OF a6] sh [OF a7])
  note c = c1 c2 c3 c4 c5 c6 c7 c8
  have lt: "i < N" "j < M" "d < M" "d < N" "M - 1 - d < M" "N - 1 - d < N"
    "w - 1 < N" "w - 1 < M" "M - w < M" "N - w < N"
    using i j d w wN wM by auto
  have no: "\<not> M - w \<le> d" "\<not> N - w \<le> d" "\<not> i < w" "\<not> N - w \<le> i"
    "\<not> j < w" "\<not> M - w \<le> j" "M - w \<le> M - 1 - d" "N - w \<le> N - 1 - d"
    "\<not> M - 1 - d < w" "\<not> N - 1 - d < w" "w - 1 < w" "\<not> N - w \<le> w - 1"
    "\<not> N - w < w" "\<not> M - w < w"
    using i j d w wN wM by auto
  have mirror: "M - 1 - (M - 1 - d) = d" "N - 1 - (N - 1 - d) = d"
    using d wN wM by auto
  have A1: "b1 ! i ! d = field ! i ! (w - 1)"
    using c1 [OF lt(1) lt(3)] d by simp
  have A2: "b2 ! i ! d = b1 ! i ! d"
    using c2 [OF lt(1) lt(3)] no(1) by simp
  have A3: "b3 ! i ! d = b2 ! i ! d * sin (pi / 2 * (real d / real w))"
    using c3 [OF lt(1) lt(3)] d by simp
  have A4: "b4 ! i ! d = b3 ! i ! d"
    using c4 [OF lt(1) lt(3)] no(1) by simp
  have A5: "b5 ! i ! d = b4 ! i ! d"
    using c5 [OF lt(1) lt(3)] no(3) by simp
  have A6: "b6 ! i ! d = b5 ! i ! d"
    using c6 [OF lt(1) lt(3)] no(4) by simp
  have A7: "b7 ! i ! d = b6 ! i ! d"
    using c7 [OF lt(1) lt(3)] no(3) by simp
  have A8: "b8 ! i ! d = b7 ! i ! d"
    using c8 [OF lt(1) lt(3)] no(4) by simp
  have xf: "b8 ! i ! d = field ! i ! (w - 1) * sin (pi / 2 * (real d / real w))"
    by (simp only: A8 A7 A6 A5 A4 A3 A2 A1)
  have B01: "b1 ! i ! (M - w) = field ! i ! (M - w)"
    using c1 [OF lt(1) lt(9)] no(14) by simp
  have B2: "b2 ! i ! (M - 1 - d) = b1 ! i ! (M - w)"
    using c2 [OF lt(1) lt(5)] no(7) by simp
  have B3: "b3 ! i ! (M - 1 - d) = b2 ! i ! (M - 1 - d)"
    using c3 [OF lt(1) lt(5)] no(9) by simp
  have B4: "b4 ! i ! (M - 1 - d) = b3 ! i ! (M - 1 - d) * sin (pi / 2 * (real d / real w))"
    using c4 [OF lt(1) lt(5)] no(7) mirror(1) by simp
  have B5: "b5 ! i ! (M - 1 - d) = b4 ! i ! (M - 1 - d)"
    using c5 [OF lt(1) lt(5)] no(3) by simp
  have B6: "b6 ! i ! (M - 1 - d) = b5 ! i ! (M - 1 - d)"
    using c6 [OF lt(1) lt(5)] no(4) by simp
  have B7: "b7 ! i ! (M - 1 - d) = b6 ! i ! (M - 1 - d)"
    using c7 [OF lt(1) lt(5)] no(3) by simp
  have B8: "b8 ! i ! (M - 1 - d) = b7 ! i ! (M - 1 - d)"
    using c8 [OF lt(1) lt(5)] no(4) by simp
  have xb: "b8 ! i ! (M - 1 - d) = field ! i ! (M - w) * sin (pi / 2 * (real d / real w))"
    by (simp only: B8 B7 B6 B5 B4 B3 B2 B01)
  have Cz1: "b1 ! (w - 1) ! j = field ! (w - 1) ! j"
    using c1 [OF lt(7) lt(2)] no(5) by simp
  have Cz2: "b2 ! (w - 1) ! j = b1 ! (w - 1) ! j"
    using c2 [OF lt(7) lt(2)] no(6) by simp
  have Cz3: "b3 ! (w - 1) ! j = b2 ! (w - 1) ! j"
    using c3 [OF lt(7) lt(2)] no(5) by simp
  have Cz4: "b4 ! (w - 1) ! j = b3 ! (w - 1) ! j"
    using c4 [OF lt(7) lt(2)] no(6) by simp
  have C5: "b5 ! d ! j = b4 ! (w - 1) ! j"
    using c5 [OF lt(4) lt(2)] d by simp
  have C6: "b6 ! d ! j = b5 ! d ! j"
    using c6 [OF lt(4) lt(2)] no(2) by simp
  have C7: "b7 ! d ! j = b6 ! d ! j * sin (pi / 2 * (real d / real w))"
    using c7 [OF lt(4) lt(2)] d by simp
  have C8: "b8 ! d ! j = b7 ! d ! j"
    using c8 [OF lt(4) lt(2)] no(2) by simp
  have yf: "b8 ! d ! j = field ! (w - 1) ! j * sin (pi / 2 * (real d / real w))"
    by (simp only: C8 C7 C6 C5 Cz4 Cz3 Cz2 Cz1)
  have Dz1: "b1 ! (N - w) ! j = field ! (N - w) ! j"
    using c1 [OF lt(10) lt(2)] no(5) by simp
  have Dz2: "b2 ! (N - w) ! j = b1 ! (N - w) ! j"
    using c2 [OF lt(10) lt(2)] no(6) by simp
  have Dz3: "b3 ! (N - w) ! j = b2 ! (N - w) ! j"
    using c3 [OF lt(10) lt(2)] no(5) by simp
  have Dz4: "b4 ! (N - w) ! j = b3 ! (N - w) ! j"
    using c4 [OF lt(10) lt(2)] no(6) by simp
  have Dz5: "b5 ! (N - w) ! j = b4 ! (N - w) ! j"
    using c5 [OF lt(10) lt(2)] no(13) by simp
  have D6: "b6 ! (N - 1 - d) ! j = b5 ! (N - w) ! j"
    using c6 [OF lt(6) lt(2)] no(8) by simp
  have D7: "b7 ! (N - 1 - d) ! j = b6 ! (N - 1 - d) ! j"
    using c7 [OF lt(6) lt(2)] no(10) by simp
  have D8: "b8 ! (N - 1 - d) ! j = b7 ! (N - 1 - d) ! j * sin (pi / 2 * (real d / real w))"
    using c8 [OF lt(6) lt(2)] no(8) mirror(2) by simp
  have yb: "b8 ! (N - 1 - d) ! j = field ! (N - w) ! j * sin (pi / 2 * (real d / real w))"
    by (simp only: D8 D7 D6 Dz5 Dz4 Dz3 Dz2 Dz1)
  have E1: "b1 ! i ! j = field ! i ! j"
    using c1 [OF lt(1) lt(2)] no(5) by simp
  have E2: "b2 ! i ! j = b1 ! i ! j"
    using c2 [OF lt(1) lt(2)] no(6) by simp
  have E3: "b3 ! i ! j = b2 ! i ! j"
    using c3 [OF lt(1) lt(2)] no(5) by simp
  have E4: "b4 ! i ! j = b3 ! i ! j"
    using c4 [OF lt(1) lt(2)] no(6) by simp
  have E5: "b5 ! i ! j = b4 ! i ! j"
    using c5 [OF lt(1) lt(2)] no(3) by simp
  have E6: "b6 ! i ! j = b5 ! i ! j"
    using c6 [OF lt(1) lt(2)] no(4) by simp
  have E7: "b7 ! i ! j = b6 ! i ! j"
    using c7 [OF lt(1) lt(2)] no(3) by simp
  have E8: "b8 ! i ! j = b7 ! i ! j"
    using c8 [OF lt(1) lt(2)] no(4) by simp
  have mid: "b8 ! i ! j = field ! i ! j"
    by (simp only: E8 E7 E6 E5 E4 E3 E2 E1)
  show ?thesis using run xf xb yf yb mid by blast
qed

section \<open>The claims\<close>

text \<open>
  C1. On a 3D grid, for one initial vorticity field, one prefactor and vector fields P
  (penalised velocity) and V (velocity), the vorticity forcing accumulator run on the
  forcing field F = P - V ends without an exception in exactly the vorticity field in which
  the penalised-velocity accumulator run on (P, V) ends, over exact arithmetic.
\<close>

theorem accumulators_agree:
  assumes "is_vector_field3 N M K vorticity_field"
    "is_vector_field3 N M K penalised_velocity_field"
    "is_vector_field3 N M K velocity_field"
    "0 < N" "0 < M"
  shows "\<exists>vorticity'.
      update_vorticity_from_velocity_forcing_pyst_kernel_3d vorticity_field
        (velocity_forcing_of penalised_velocity_field velocity_field) prefactor
        = (None, vorticity')
    \<and> update_vorticity_from_penalised_velocity_kernel_3d vorticity_field
        penalised_velocity_field velocity_field prefactor = (None, vorticity')"
proof -
  let ?P = penalised_velocity_field and ?V = velocity_field
  let ?F = "velocity_forcing_of ?P ?V"
  have F: "is_vector_field3 N M K ?F"
    using assms(2,3) by (rule velocity_forcing_of_vector_field)
  have Fc: "\<And>c. c < 3 \<Longrightarrow> ?F ! c = field_difference_3d (?P ! c) (?V ! c)"
    using assms(2,3) by (rule velocity_forcing_of_nth)
  have d: "?F ! c ! i ! j ! k = ?P ! c ! i ! j ! k - ?V ! c ! i ! j ! k"
    if "c < 3" "i < N" "j < M" "k < K" for c i j k
    using that field_difference_3d_nth [OF is_vector_field3_nth [OF assms(2)]
        is_vector_field3_nth [OF assms(3)], of c c i j k]
    by (simp add: Fc)
  have w: "is_array3 N M K (vorticity_field ! 0)" "is_array3 N M K (vorticity_field ! 1)"
    "is_array3 N M K (vorticity_field ! 2)"
    using assms(1) by (simp_all add: is_vector_field3_nth)
  have x: "loop_over_domain_3d 1 (update_vorticity_from_velocity_forcing_x_comp_stencil_3d
        (vorticity_field ! 0) (?F ! 1) (?F ! 2) prefactor) (vorticity_field ! 0)
    = loop_over_domain_3d 1 (update_vorticity_from_penalised_velocity_x_comp_stencil_3d
        (vorticity_field ! 0) (?P ! 1) (?P ! 2) (?V ! 1) (?V ! 2) prefactor) (vorticity_field ! 0)"
    using w(1)
    by (rule loop_over_domain_3d_cong)
      (simp add: update_vorticity_from_velocity_forcing_x_comp_stencil_3d_def
        update_vorticity_from_penalised_velocity_x_comp_stencil_3d_def d)
  have y: "loop_over_domain_3d 1 (update_vorticity_from_velocity_forcing_y_comp_stencil_3d
        (vorticity_field ! 1) (?F ! 0) (?F ! 2) prefactor) (vorticity_field ! 1)
    = loop_over_domain_3d 1 (update_vorticity_from_penalised_velocity_y_comp_stencil_3d
        (vorticity_field ! 1) (?P ! 0) (?P ! 2) (?V ! 0) (?V ! 2) prefactor) (vorticity_field ! 1)"
    using w(2)
    by (rule loop_over_domain_3d_cong)
      (simp add: update_vorticity_from_velocity_forcing_y_comp_stencil_3d_def
        update_vorticity_from_penalised_velocity_y_comp_stencil_3d_def d)
  have z: "loop_over_domain_3d 1 (update_vorticity_from_velocity_forcing_z_comp_stencil_3d
        (vorticity_field ! 2) (?F ! 0) (?F ! 1) prefactor) (vorticity_field ! 2)
    = loop_over_domain_3d 1 (update_vorticity_from_penalised_velocity_z_comp_stencil_3d
        (vorticity_field ! 2) (?P ! 0) (?P ! 1) (?V ! 0) (?V ! 1) prefactor) (vorticity_field ! 2)"
    using w(3)
    by (rule loop_over_domain_3d_cong)
      (simp add: update_vorticity_from_velocity_forcing_z_comp_stencil_3d_def
        update_vorticity_from_penalised_velocity_z_comp_stencil_3d_def d)
  show ?thesis
    by (simp only: forcing_run [OF assms(1) F assms(4,5)]
        penalised_run [OF assms(1,2,3,4,5)] x y z) simp
qed

theorem accumulators_agree_witness:
  "is_vector_field3 3 3 3 (sample_vector_field3 0)
   \<and> is_vector_field3 3 3 3 (sample_vector_field3 1)
   \<and> is_vector_field3 3 3 3 (sample_vector_field3 5)
   \<and> (\<exists>vorticity'.
      update_vorticity_from_velocity_forcing_pyst_kernel_3d (sample_vector_field3 0)
        (velocity_forcing_of (sample_vector_field3 1) (sample_vector_field3 5)) 2
        = (None, vorticity')
    \<and> update_vorticity_from_penalised_velocity_kernel_3d (sample_vector_field3 0)
        (sample_vector_field3 1) (sample_vector_field3 5) 2 = (None, vorticity'))"
proof -
  have h: "is_vector_field3 3 3 3 (sample_vector_field3 a)" for a
    by (simp add: is_vector_field3_def is_array3_def is_array2_def
        sample_vector_field3_def sample_field3_def)
  show ?thesis
    using accumulators_agree [OF h [of 0] h [of 1] h [of 5], of 2] h [of 0] h [of 1] h [of 5]
    by simp
qed

text \<open>
  C2. For a scalar field of shape (N, M) with N, M at least 3 and a curl buffer of shape
  (2, N, M), the 2D curl operator raises nothing and leaves, at every interior point
  (i, j) with 1 \<le> i \<le> N - 2 and 1 \<le> j \<le> M - 2,
  curl[0][i, j] = prefactor * (field[i+1, j] - field[i-1, j]) and
  curl[1][i, j] = prefactor * (field[i, j-1] - field[i, j+1]).
\<close>

theorem curl_interior_values:
  assumes "is_array2 N M field" "is_vector_field2 N M curl" "3 \<le> N" "3 \<le> M"
    "1 \<le> i" "i + 2 \<le> N" "1 \<le> j" "j + 2 \<le> M"
  shows "\<exists>curl'. outplane_field_curl_pyst_kernel_2d curl field prefactor = (None, curl')
           \<and> curl' ! 0 ! i ! j = prefactor * (field ! (i + 1) ! j - field ! (i - 1) ! j)
           \<and> curl' ! 1 ! i ! j = prefactor * (field ! i ! (j - 1) - field ! i ! (j + 1))"
proof -
  have pos: "0 < N" using assms(3) by auto
  have a: "is_array2 N M (curl ! 0)" "is_array2 N M (curl ! 1)"
    using assms(2) by (simp_all add: is_vector_field2_nth)
  have ij: "i < N" "j < M" using assms by auto
  have inner: "\<not> (i < 1 \<or> N \<le> i + 1 \<or> j < 1 \<or> M \<le> j + 1)"
    "1 \<le> i \<and> i + 1 < N \<and> 1 \<le> j \<and> j + 1 < M"
    using assms by auto
  have x: "set_fixed_val_at_boundaries_2d 1
        (loop_over_domain_2d 1 (outplane_field_curl_x_stencil_2d field prefactor) (curl ! 0)) 0 ! i ! j
      = prefactor * (field ! (i + 1) ! j - field ! (i - 1) ! j)"
    by (subst set_fixed_val_at_boundaries_2d_nth [OF is_array2_loop [OF a(1)] ij],
        subst loop_over_domain_2d_nth [OF a(1) ij])
      (use inner in \<open>simp add: outplane_field_curl_x_stencil_2d_def\<close>)
  have y: "set_fixed_val_at_boundaries_2d 1
        (loop_over_domain_2d 1 (outplane_field_curl_y_stencil_2d field prefactor) (curl ! 1)) 0 ! i ! j
      = prefactor * (field ! i ! (j - 1) - field ! i ! (j + 1))"
    by (subst set_fixed_val_at_boundaries_2d_nth [OF is_array2_loop [OF a(2)] ij],
        subst loop_over_domain_2d_nth [OF a(2) ij])
      (use inner in \<open>simp add: outplane_field_curl_y_stencil_2d_def\<close>)
  show ?thesis
    unfolding outplane_field_curl_run [OF assms(1) pos is_vector_field2_length [OF assms(2)] a]
    using x y by simp
qed

theorem curl_interior_values_witness:
  "is_array2 3 3 [[1, 2, 3], [4, 5, 6], [7, 8, 10]] \<and>
   is_vector_field2 3 3 [[[9, 9, 9], [9, 9, 9], [9, 9, 9]], [[9, 9, 9], [9, 9, 9], [9, 9, 9]]] \<and>
   (\<exists>curl'. outplane_field_curl_pyst_kernel_2d
        [[[9, 9, 9], [9, 9, 9], [9, 9, 9]], [[9, 9, 9], [9, 9, 9], [9, 9, 9]]]
        [[1, 2, 3], [4, 5, 6], [7, 8, 10]] 2 = (None, curl')
      \<and> curl' ! 0 ! 1 ! 1 = 12 \<and> curl' ! 1 ! 1 ! 1 = - 4)"
  using curl_interior_values [of 3 3 "[[1, 2, 3], [4, 5, 6], [7, 8, 10]]"
      "[[[9, 9, 9], [9, 9, 9], [9, 9, 9]], [[9, 9, 9], [9, 9, 9], [9, 9, 9]]]" 1 1 2]
  by (simp add: is_array2_def is_vector_field2_def)

text \<open>
  C3. For 3D vector fields of one shape with all extents at least 3, the vorticity forcing
  accumulator raises nothing and, at every interior point and for every component, leaves
  the initial vorticity plus prefactor times the central-difference curl component of the
  forcing field, which for each component reads the two other forcing components only:
  for x, fz[i, j+1, k] - fz[i, j-1, k] - fy[i+1, j, k] + fy[i-1, j, k] in array indices.
\<close>

theorem forcing_adds_curl_at_interior:
  assumes "is_vector_field3 N M K vorticity_field"
    "is_vector_field3 N M K velocity_forcing_field"
    "3 \<le> N" "3 \<le> M" "3 \<le> K"
    "1 \<le> i" "i + 2 \<le> N" "1 \<le> j" "j + 2 \<le> M" "1 \<le> k" "k + 2 \<le> K"
  shows "\<exists>vorticity'.
      update_vorticity_from_velocity_forcing_pyst_kernel_3d
        vorticity_field velocity_forcing_field prefactor = (None, vorticity')
    \<and> vorticity' ! 0 ! i ! j ! k = vorticity_field ! 0 ! i ! j ! k + prefactor *
        (velocity_forcing_field ! 2 ! i ! (j + 1) ! k - velocity_forcing_field ! 2 ! i ! (j - 1) ! k
         - velocity_forcing_field ! 1 ! (i + 1) ! j ! k + velocity_forcing_field ! 1 ! (i - 1) ! j ! k)
    \<and> vorticity' ! 1 ! i ! j ! k = vorticity_field ! 1 ! i ! j ! k + prefactor *
        (velocity_forcing_field ! 0 ! (i + 1) ! j ! k - velocity_forcing_field ! 0 ! (i - 1) ! j ! k
         - velocity_forcing_field ! 2 ! i ! j ! (k + 1) + velocity_forcing_field ! 2 ! i ! j ! (k - 1))
    \<and> vorticity' ! 2 ! i ! j ! k = vorticity_field ! 2 ! i ! j ! k + prefactor *
        (velocity_forcing_field ! 1 ! i ! j ! (k + 1) - velocity_forcing_field ! 1 ! i ! j ! (k - 1)
         - velocity_forcing_field ! 0 ! i ! (j + 1) ! k + velocity_forcing_field ! 0 ! i ! (j - 1) ! k)"
proof -
  have pos: "0 < N" "0 < M" using assms(3,4) by auto
  have w: "is_array3 N M K (vorticity_field ! 0)" "is_array3 N M K (vorticity_field ! 1)"
    "is_array3 N M K (vorticity_field ! 2)"
    using assms(1) by (simp_all add: is_vector_field3_nth)
  have ijk: "i < N" "j < M" "k < K"
    "1 \<le> i \<and> i + 1 < N \<and> 1 \<le> j \<and> j + 1 < M \<and> 1 \<le> k \<and> k + 1 < K"
    using assms by auto
  have x: "loop_over_domain_3d 1 (update_vorticity_from_velocity_forcing_x_comp_stencil_3d
        (vorticity_field ! 0) (velocity_forcing_field ! 1) (velocity_forcing_field ! 2) prefactor)
        (vorticity_field ! 0) ! i ! j ! k
      = vorticity_field ! 0 ! i ! j ! k + prefactor *
        (velocity_forcing_field ! 2 ! i ! (j + 1) ! k - velocity_forcing_field ! 2 ! i ! (j - 1) ! k
         - velocity_forcing_field ! 1 ! (i + 1) ! j ! k + velocity_forcing_field ! 1 ! (i - 1) ! j ! k)"
    by (subst loop_over_domain_3d_nth [OF w(1) ijk(1,2,3)])
      (use ijk(4) in \<open>simp add: update_vorticity_from_velocity_forcing_x_comp_stencil_3d_def\<close>)
  have y: "loop_over_domain_3d 1 (update_vorticity_from_velocity_forcing_y_comp_stencil_3d
        (vorticity_field ! 1) (velocity_forcing_field ! 0) (velocity_forcing_field ! 2) prefactor)
        (vorticity_field ! 1) ! i ! j ! k
      = vorticity_field ! 1 ! i ! j ! k + prefactor *
        (velocity_forcing_field ! 0 ! (i + 1) ! j ! k - velocity_forcing_field ! 0 ! (i - 1) ! j ! k
         - velocity_forcing_field ! 2 ! i ! j ! (k + 1) + velocity_forcing_field ! 2 ! i ! j ! (k - 1))"
    by (subst loop_over_domain_3d_nth [OF w(2) ijk(1,2,3)])
      (use ijk(4) in \<open>simp add: update_vorticity_from_velocity_forcing_y_comp_stencil_3d_def\<close>)
  have z: "loop_over_domain_3d 1 (update_vorticity_from_velocity_forcing_z_comp_stencil_3d
        (vorticity_field ! 2) (velocity_forcing_field ! 0) (velocity_forcing_field ! 1) prefactor)
        (vorticity_field ! 2) ! i ! j ! k
      = vorticity_field ! 2 ! i ! j ! k + prefactor *
        (velocity_forcing_field ! 1 ! i ! j ! (k + 1) - velocity_forcing_field ! 1 ! i ! j ! (k - 1)
         - velocity_forcing_field ! 0 ! i ! (j + 1) ! k + velocity_forcing_field ! 0 ! i ! (j - 1) ! k)"
    by (subst loop_over_domain_3d_nth [OF w(3) ijk(1,2,3)])
      (use ijk(4) in \<open>simp add: update_vorticity_from_velocity_forcing_z_comp_stencil_3d_def\<close>)
  show ?thesis
    unfolding forcing_run [OF assms(1,2) pos]
    using x y z by simp
qed

theorem forcing_adds_curl_at_interior_witness:
  "is_vector_field3 3 3 3 (sample_vector_field3 0)
   \<and> is_vector_field3 3 3 3 (sample_vector_field3 1)
   \<and> (\<exists>vorticity'.
      update_vorticity_from_velocity_forcing_pyst_kernel_3d
        (sample_vector_field3 0) (sample_vector_field3 1) 2 = (None, vorticity')
    \<and> vorticity' ! 0 ! 1 ! 1 ! 1 = 6
    \<and> vorticity' ! 1 ! 1 ! 1 ! 1 = - 9
    \<and> vorticity' ! 2 ! 1 ! 1 ! 1 = 6)"
proof -
  have h: "is_vector_field3 3 3 3 (sample_vector_field3 a)" for a
    by (simp add: is_vector_field3_def is_array3_def is_array2_def
        sample_vector_field3_def sample_field3_def)
  show ?thesis
    using forcing_adds_curl_at_interior [OF h [of 0] h [of 1], of 1 1 1 2] h [of 0] h [of 1]
    by (simp add: sample_vector_field3_def sample_field3_def)
qed

text \<open>
  C4. For a scalar field with both extents at least 3, after the 2D curl operator has run
  both curl components are exactly 0 at every point of the outermost ring.
\<close>

theorem curl_zero_on_boundary_ring:
  assumes "is_array2 N M field" "is_vector_field2 N M curl" "3 \<le> N" "3 \<le> M"
    "i < N" "j < M" "i = 0 \<or> i = N - 1 \<or> j = 0 \<or> j = M - 1" "c < 2"
  shows "\<exists>curl'. outplane_field_curl_pyst_kernel_2d curl field prefactor = (None, curl')
           \<and> curl' ! c ! i ! j = 0"
proof -
  have pos: "0 < N" using assms(3) by auto
  have a: "is_array2 N M (curl ! 0)" "is_array2 N M (curl ! 1)"
    using assms(2) by (simp_all add: is_vector_field2_nth)
  have ring: "i < 1 \<or> N \<le> i + 1 \<or> j < 1 \<or> M \<le> j + 1"
    using assms(5-7) by auto
  have zero: "set_fixed_val_at_boundaries_2d 1 (loop_over_domain_2d 1 rhs (curl ! c)) 0 ! i ! j = 0"
    for rhs
    by (subst set_fixed_val_at_boundaries_2d_nth
        [OF is_array2_loop [OF is_vector_field2_nth [OF assms(2,8)]] assms(5,6)])
      (use ring in simp)
  have c: "c = 0 \<or> c = 1" using assms(8) by auto
  show ?thesis
    unfolding outplane_field_curl_run [OF assms(1) pos is_vector_field2_length [OF assms(2)] a]
    using c zero by auto
qed

theorem curl_zero_on_boundary_ring_witness:
  "is_array2 3 3 [[1, 2, 3], [4, 5, 6], [7, 8, 10]] \<and>
   is_vector_field2 3 3 [[[9, 9, 9], [9, 9, 9], [9, 9, 9]], [[9, 9, 9], [9, 9, 9], [9, 9, 9]]] \<and>
   (\<exists>curl'. outplane_field_curl_pyst_kernel_2d
        [[[9, 9, 9], [9, 9, 9], [9, 9, 9]], [[9, 9, 9], [9, 9, 9], [9, 9, 9]]]
        [[1, 2, 3], [4, 5, 6], [7, 8, 10]] 2 = (None, curl')
      \<and> curl' ! 1 ! 2 ! 1 = 0)"
  using curl_zero_on_boundary_ring [of 3 3 "[[1, 2, 3], [4, 5, 6], [7, 8, 10]]"
      "[[[9, 9, 9], [9, 9, 9], [9, 9, 9]], [[9, 9, 9], [9, 9, 9], [9, 9, 9]]]" 2 1 1 2]
  by (simp add: is_array2_def is_vector_field2_def)

text \<open>
  C5 (as it stands in the specification) fails at the innermost cell of a band. With
  width 2 and spacing 1 on a 6 by 6 grid the operator returns the field below: at row 2,
  column 1 (the innermost column of the front band along x, away from the corners) the
  copied value 8 has been multiplied by sin (\<pi>/4) and is 4 \<surd>2, where a factor of exactly
  1 would have left 8.
\<close>

theorem taper_below_one_at_innermost_cell:
  "gen_penalise_field_boundary_pyst_kernel_2d (PyInt 2) 1
     [[0, 1, 2, 3, 4, 5], [0, 1, 2, 3, 4, 5], [0, 1, 2, 3, 4, 5],
      [0, 1, 2, 3, 4, 5], [0, 1, 2, 3, 4, 5], [0, 1, 2, 3, 4, 5]]
     [[0, 0, 0, 0, 0, 0], [1, 1, 1, 1, 1, 1], [2, 2, 2, 2, 2, 2],
      [3, 3, 3, 3, 3, 3], [4, 4, 4, 4, 4, 4], [5, 5, 5, 5, 5, 5]]
   = Inr \<lparr> kernel_width = 2, kernel_sine_prefactor = pi / 4,
         kernel_x_grid_field = [[0, 1, 2, 3, 4, 5], [0, 1, 2, 3, 4, 5], [0, 1, 2, 3, 4, 5],
                                [0, 1, 2, 3, 4, 5], [0, 1, 2, 3, 4, 5], [0, 1, 2, 3, 4, 5]],
         kernel_y_grid_field = [[0, 0, 0, 0, 0, 0], [1, 1, 1, 1, 1, 1], [2, 2, 2, 2, 2, 2],
                                [3, 3, 3, 3, 3, 3], [4, 4, 4, 4, 4, 4], [5, 5, 5, 5, 5, 5]],
         kernel_x_grid_field_start = 0, kernel_y_grid_field_start = 0,
         kernel_x_grid_field_end = 5, kernel_y_grid_field_end = 5 \<rparr>
   \<and> penalise_field_boundary_pyst_kernel_2d
       \<lparr> kernel_width = 2, kernel_sine_prefactor = pi / 4,
         kernel_x_grid_field = [[0, 1, 2, 3, 4, 5], [0, 1, 2, 3, 4, 5], [0, 1, 2, 3, 4, 5],
                                [0, 1, 2, 3, 4, 5], [0, 1, 2, 3, 4, 5], [0, 1, 2, 3, 4, 5]],
         kernel_y_grid_field = [[0, 0, 0, 0, 0, 0], [1, 1, 1, 1, 1, 1], [2, 2, 2, 2, 2, 2],
                                [3, 3, 3, 3, 3, 3], [4, 4, 4, 4, 4, 4], [5, 5, 5, 5, 5, 5]],
         kernel_x_grid_field_start = 0, kernel_y_grid_field_start = 0,
         kernel_x_grid_field_end = 5, kernel_y_grid_field_end = 5 \<rparr>
       [[2, 4, 6, 8, 10, 12], [4, 6, 8, 10, 12, 14], [6, 8, 10, 12, 14, 16],
        [8, 10, 12, 14, 16, 18], [10, 12, 14, 16, 18, 20], [12, 14, 16, 18, 20, 22]]
     = (None,
        [[0, 0, 0, 0, 0, 0],
         [0, 3, 4 * sqrt 2, 5 * sqrt 2, 6, 0],
         [0, 4 * sqrt 2, 10, 12, 7 * sqrt 2, 0],
         [0, 5 * sqrt 2, 12, 14, 8 * sqrt 2, 0],
         [0, 6, 7 * sqrt 2, 8 * sqrt 2, 9, 0],
         [0, 0, 0, 0, 0, 0]])
   \<and> 4 * sqrt 2 \<noteq> (8::real)"
proof -
  have "sqrt 2 \<noteq> sqrt 4" by (simp only: real_sqrt_eq_iff)
  then have "4 * sqrt 2 \<noteq> (8::real)" by simp
  then show ?thesis
    by (simp add: gen_penalise_field_boundary_pyst_kernel_2d_def index2_def
        penalise_field_boundary_pyst_kernel_2d_def in_place_def Let_def
        assign_columns_def assign_rows_def shape2_def slice_bounds_def
        penalise_field_x_front_boundary_kernel_2d_def penalise_field_x_back_boundary_kernel_2d_def
        penalise_field_y_front_boundary_kernel_2d_def penalise_field_y_back_boundary_kernel_2d_def
        loop_over_slice_2d_def
        penalise_field_x_front_boundary_stencil_2d_def penalise_field_x_back_boundary_stencil_2d_def
        penalise_field_y_front_boundary_stencil_2d_def penalise_field_y_back_boundary_stencil_2d_def
        x_front_taper_def x_back_taper_def y_front_taper_def y_back_taper_def
        sin_45 upt_rec_numeral)
qed

text \<open>
  C5, amended. Over exact real arithmetic, on uniform coordinate arrays of spacing dx > 0
  and with a width w that fits the grid, each of the four sliced kernels multiplies the
  band cell that lies d cells from the outer edge of its band (d < w) by
  sin (\<omega> \<cdot> d \<cdot> dx) with \<omega> = (\<pi>/2) / (w \<cdot> dx) fixed at construction: the outermost cell
  becomes exactly 0, and the innermost cell is multiplied by sin ((\<pi>/2) (w - 1) / w),
  which is below 1. When moreover w is at least 2 and the bands do not overlap, the whole
  operator returns and leaves, in a band cell away from the corners, the value of the
  innermost cell of the band times that factor.
\<close>

theorem taper_values_in_band:
  assumes "0 < w" "0 < dx" "w \<le> N" "w \<le> M" "i < N" "j < M" "d < w"
    "is_array2 N M field"
  shows "\<exists>K. gen_penalise_field_boundary_pyst_kernel_2d (PyInt (int w)) dx
           (uniform_x_grid x0 dx N M) (uniform_y_grid y0 dx N M) = Inr K
    \<and> kernel_sine_prefactor K = (pi / 2) / (real w * dx)
    \<and> (\<exists>f'. penalise_field_x_front_boundary_kernel_2d K (kernel_x_grid_field K) field = Inr f'
         \<and> f' ! i ! d = field ! i ! d * sin (kernel_sine_prefactor K * (real d * dx))
         \<and> f' ! i ! 0 = 0
         \<and> f' ! i ! (w - 1) = field ! i ! (w - 1) * sin (pi / 2 * (real (w - 1) / real w)))
    \<and> (\<exists>f'. penalise_field_x_back_boundary_kernel_2d K (kernel_x_grid_field K) field = Inr f'
         \<and> f' ! i ! (M - 1 - d)
             = field ! i ! (M - 1 - d) * sin (kernel_sine_prefactor K * (real d * dx))
         \<and> f' ! i ! (M - 1) = 0
         \<and> f' ! i ! (M - w) = field ! i ! (M - w) * sin (pi / 2 * (real (w - 1) / real w)))
    \<and> (\<exists>f'. penalise_field_y_front_boundary_kernel_2d K (kernel_y_grid_field K) field = Inr f'
         \<and> f' ! d ! j = field ! d ! j * sin (kernel_sine_prefactor K * (real d * dx))
         \<and> f' ! 0 ! j = 0
         \<and> f' ! (w - 1) ! j = field ! (w - 1) ! j * sin (pi / 2 * (real (w - 1) / real w)))
    \<and> (\<exists>f'. penalise_field_y_back_boundary_kernel_2d K (kernel_y_grid_field K) field = Inr f'
         \<and> f' ! (N - 1 - d) ! j
             = field ! (N - 1 - d) ! j * sin (kernel_sine_prefactor K * (real d * dx))
         \<and> f' ! (N - 1) ! j = 0
         \<and> f' ! (N - w) ! j = field ! (N - w) ! j * sin (pi / 2 * (real (w - 1) / real w)))
    \<and> sin (pi / 2 * (real (w - 1) / real w)) < 1
    \<and> (2 \<le> w \<and> 2 * w \<le> N \<and> 2 * w \<le> M \<and> w \<le> i \<and> i + w < N \<and> w \<le> j \<and> j + w < M \<longrightarrow>
        (\<exists>f'. penalise_field_boundary_pyst_kernel_2d K field = (None, f')
           \<and> f' ! i ! d = field ! i ! (w - 1) * sin (kernel_sine_prefactor K * (real d * dx))
           \<and> f' ! i ! (M - 1 - d)
               = field ! i ! (M - w) * sin (kernel_sine_prefactor K * (real d * dx))
           \<and> f' ! d ! j = field ! (w - 1) ! j * sin (kernel_sine_prefactor K * (real d * dx))
           \<and> f' ! (N - 1 - d) ! j
               = field ! (N - w) ! j * sin (kernel_sine_prefactor K * (real d * dx))))"
proof -
  have dx: "dx \<noteq> 0" using assms(2) by simp
  have pos: "0 < N" "0 < M" using assms(1,3,4) by auto
  obtain K where K: "gen_penalise_field_boundary_pyst_kernel_2d (PyInt (int w)) dx
           (uniform_x_grid x0 dx N M) (uniform_y_grid y0 dx N M) = Inr K"
    and sp: "kernel_sine_prefactor K = (pi / 2) / (real w * dx)"
    using gen_penalise_uniform_ex [OF assms(1) dx pos] by blast
  note all = band_kernels_uniform_all [OF assms(1) dx assms(3,4,8) K]
  obtain fxf where kxf:
    "penalise_field_x_front_boundary_kernel_2d K (kernel_x_grid_field K) field = Inr fxf"
    and xf: "\<And>i d. i < N \<Longrightarrow> d < w \<Longrightarrow>
       fxf ! i ! d = field ! i ! d * sin (pi / 2 * (real d / real w))"
    using all(1) by blast
  obtain fxb where kxb:
    "penalise_field_x_back_boundary_kernel_2d K (kernel_x_grid_field K) field = Inr fxb"
    and xb: "\<And>i d. i < N \<Longrightarrow> d < w \<Longrightarrow>
       fxb ! i ! (M - 1 - d) = field ! i ! (M - 1 - d) * sin (pi / 2 * (real d / real w))"
    using all(2) by blast
  obtain fyf where kyf:
    "penalise_field_y_front_boundary_kernel_2d K (kernel_y_grid_field K) field = Inr fyf"
    and yf: "\<And>j d. j < M \<Longrightarrow> d < w \<Longrightarrow>
       fyf ! d ! j = field ! d ! j * sin (pi / 2 * (real d / real w))"
    using all(3) by blast
  obtain fyb where kyb:
    "penalise_field_y_back_boundary_kernel_2d K (kernel_y_grid_field K) field = Inr fyb"
    and yb: "\<And>j d. j < M \<Longrightarrow> d < w \<Longrightarrow>
       fyb ! (N - 1 - d) ! j = field ! (N - 1 - d) ! j * sin (pi / 2 * (real d / real w))"
    using all(4) by blast
  have ang: "kernel_sine_prefactor K * (real d * dx) = pi / 2 * (real d / real w)"
    unfolding sp using assms(1) dx by (rule taper_angle)
  have inner: "w - 1 < w" "M - 1 - (w - 1) = M - w" "N - 1 - (w - 1) = N - w"
    using assms(1,3,4) by auto
  have one: "sin (pi / 2 * (real (w - 1) / real w)) < 1"
    using inner(1) by (rule sin_taper_bounds)
  have A: "\<exists>f'. penalise_field_x_front_boundary_kernel_2d K (kernel_x_grid_field K) field = Inr f'
         \<and> f' ! i ! d = field ! i ! d * sin (kernel_sine_prefactor K * (real d * dx))
         \<and> f' ! i ! 0 = 0
         \<and> f' ! i ! (w - 1) = field ! i ! (w - 1) * sin (pi / 2 * (real (w - 1) / real w))"
    using kxf xf [OF assms(5,7)] xf [OF assms(5,1)] xf [OF assms(5) inner(1)]
    by (simp add: ang)
  have B: "\<exists>f'. penalise_field_x_back_boundary_kernel_2d K (kernel_x_grid_field K) field = Inr f'
         \<and> f' ! i ! (M - 1 - d)
             = field ! i ! (M - 1 - d) * sin (kernel_sine_prefactor K * (real d * dx))
         \<and> f' ! i ! (M - 1) = 0
         \<and> f' ! i ! (M - w) = field ! i ! (M - w) * sin (pi / 2 * (real (w - 1) / real w))"
    using kxb xb [OF assms(5,7)] xb [OF assms(5,1)] xb [OF assms(5) inner(1), unfolded inner(2)]
    by (simp add: ang)
  have C: "\<exists>f'. penalise_field_y_front_boundary_kernel_2d K (kernel_y_grid_field K) field = Inr f'
         \<and> f' ! d ! j = field ! d ! j * sin (kernel_sine_prefactor K * (real d * dx))
         \<and> f' ! 0 ! j = 0
         \<and> f' ! (w - 1) ! j = field ! (w - 1) ! j * sin (pi / 2 * (real (w - 1) / real w))"
    using kyf yf [OF assms(6,7)] yf [OF assms(6,1)] yf [OF assms(6) inner(1)]
    by (simp add: ang)
  have D: "\<exists>f'. penalise_field_y_back_boundary_kernel_2d K (kernel_y_grid_field K) field = Inr f'
         \<and> f' ! (N - 1 - d) ! j
             = field ! (N - 1 - d) ! j * sin (kernel_sine_prefactor K * (real d * dx))
         \<and> f' ! (N - 1) ! j = 0
         \<and> f' ! (N - w) ! j = field ! (N - w) ! j * sin (pi / 2 * (real (w - 1) / real w))"
    using kyb yb [OF assms(6,7)] yb [OF assms(6,1)] yb [OF assms(6) inner(1), unfolded inner(3)]
    by (simp add: ang)
  have E: "2 \<le> w \<and> 2 * w \<le> N \<and> 2 * w \<le> M \<and> w \<le> i \<and> i + w < N \<and> w \<le> j \<and> j + w < M \<longrightarrow>
        (\<exists>f'. penalise_field_boundary_pyst_kernel_2d K field = (None, f')
           \<and> f' ! i ! d = field ! i ! (w - 1) * sin (kernel_sine_prefactor K * (real d * dx))
           \<and> f' ! i ! (M - 1 - d)
               = field ! i ! (M - w) * sin (kernel_sine_prefactor K * (real d * dx))
           \<and> f' ! d ! j = field ! (w - 1) ! j * sin (kernel_sine_prefactor K * (real d * dx))
           \<and> f' ! (N - 1 - d) ! j
               = field ! (N - w) ! j * sin (kernel_sine_prefactor K * (real d * dx)))"
  proof
    assume h: "2 \<le> w \<and> 2 * w \<le> N \<and> 2 * w \<le> M \<and> w \<le> i \<and> i + w < N \<and> w \<le> j \<and> j + w < M"
    from h have h': "2 \<le> w" "2 * w \<le> N" "2 * w \<le> M" "w \<le> i" "i + w < N" "w \<le> j" "j + w < M"
      by simp_all
    from penalisation_band_values [OF h'(1) dx h'(2,3) assms(8) K h'(4,5,6,7) assms(7)]
    show "\<exists>f'. penalise_field_boundary_pyst_kernel_2d K field = (None, f')
           \<and> f' ! i ! d = field ! i ! (w - 1) * sin (kernel_sine_prefactor K * (real d * dx))
           \<and> f' ! i ! (M - 1 - d)
               = field ! i ! (M - w) * sin (kernel_sine_prefactor K * (real d * dx))
           \<and> f' ! d ! j = field ! (w - 1) ! j * sin (kernel_sine_prefactor K * (real d * dx))
           \<and> f' ! (N - 1 - d) ! j
               = field ! (N - w) ! j * sin (kernel_sine_prefactor K * (real d * dx))"
      unfolding ang by blast
  qed
  show ?thesis
    by (intro exI [of _ K] conjI K sp A B C D one E)
qed

theorem taper_values_in_band_witness:
  "is_array2 6 6 [[2, 4, 6, 8, 10, 12], [4, 6, 8, 10, 12, 14], [6, 8, 10, 12, 14, 16],
                  [8, 10, 12, 14, 16, 18], [10, 12, 14, 16, 18, 20], [12, 14, 16, 18, 20, 22]]
   \<and> (\<exists>K. gen_penalise_field_boundary_pyst_kernel_2d (PyInt 2) 1
           (uniform_x_grid 0 1 6 6) (uniform_y_grid 0 1 6 6) = Inr K
      \<and> kernel_sine_prefactor K = pi / 4
      \<and> (\<exists>f'. penalise_field_x_front_boundary_kernel_2d K (kernel_x_grid_field K)
             [[2, 4, 6, 8, 10, 12], [4, 6, 8, 10, 12, 14], [6, 8, 10, 12, 14, 16],
              [8, 10, 12, 14, 16, 18], [10, 12, 14, 16, 18, 20], [12, 14, 16, 18, 20, 22]]
             = Inr f'
           \<and> f' ! 2 ! 1 = 8 * sin (pi / 4) \<and> f' ! 2 ! 0 = 0)
      \<and> (\<exists>f'. penalise_field_boundary_pyst_kernel_2d K
             [[2, 4, 6, 8, 10, 12], [4, 6, 8, 10, 12, 14], [6, 8, 10, 12, 14, 16],
              [8, 10, 12, 14, 16, 18], [10, 12, 14, 16, 18, 20], [12, 14, 16, 18, 20, 22]]
             = (None, f')
           \<and> f' ! 2 ! 1 = 8 * sin (pi / 4) \<and> f' ! 2 ! 4 = 14 * sin (pi / 4)
           \<and> f' ! 1 ! 3 = 10 * sin (pi / 4) \<and> f' ! 4 ! 3 = 16 * sin (pi / 4))
      \<and> sin (pi / 4) < 1)"
  using taper_values_in_band [of 2 1 6 6 2 3 1
      "[[2, 4, 6, 8, 10, 12], [4, 6, 8, 10, 12, 14], [6, 8, 10, 12, 14, 16],
        [8, 10, 12, 14, 16, 18], [10, 12, 14, 16, 18, 20], [12, 14, 16, 18, 20, 22]]" 0 0]
  by (auto simp: is_array2_def)

text \<open>
  C6 (as it stands in the specification) fails for coordinate arrays of a wrong shape:
  the generator accepts an x array of shape (2, 2) together with a y array of shape
  (3, 3), which cannot both match the grid. The mismatch only shows when the operator is
  applied, as a \<open>TypeError\<close> raised after the buffer has been written to.
\<close>

theorem construction_ignores_grid_shape:
  "shape2 [[0, 1], [0, 1]] \<noteq> shape2 [[0, 0, 0], [1, 1, 1], [2, 2, 2]]
   \<and> gen_penalise_field_boundary_pyst_kernel_2d (PyInt 2) 1
       [[0, 1], [0, 1]] [[0, 0, 0], [1, 1, 1], [2, 2, 2]]
     = Inr \<lparr> kernel_width = 2, kernel_sine_prefactor = pi / 4,
             kernel_x_grid_field = [[0, 1], [0, 1]],
             kernel_y_grid_field = [[0, 0, 0], [1, 1, 1], [2, 2, 2]],
             kernel_x_grid_field_start = 0, kernel_y_grid_field_start = 0,
             kernel_x_grid_field_end = 1, kernel_y_grid_field_end = 2 \<rparr>
   \<and> penalise_field_boundary_pyst_kernel_2d
       \<lparr> kernel_width = 2, kernel_sine_prefactor = pi / 4,
         kernel_x_grid_field = [[0, 1], [0, 1]],
         kernel_y_grid_field = [[0, 0, 0], [1, 1, 1], [2, 2, 2]],
         kernel_x_grid_field_start = 0, kernel_y_grid_field_start = 0,
         kernel_x_grid_field_end = 1, kernel_y_grid_field_end = 2 \<rparr>
       [[1, 2, 3, 4], [5, 6, 7, 8], [9, 10, 11, 12], [13, 14, 15, 16]]
     = (Some TypeError,
        [[2, 2, 3, 3], [6, 6, 7, 7], [10, 10, 11, 11], [14, 14, 15, 15]])"
  by (simp add: gen_penalise_field_boundary_pyst_kernel_2d_def index2_def
      penalise_field_boundary_pyst_kernel_2d_def in_place_def assign_columns_def slice_bounds_def
      shape2_def penalise_field_x_front_boundary_kernel_2d_def Let_def)

text \<open>
  C6, amended. Given non-empty coordinate arrays, the generator raises the assertion error
  for a width that is not positive and for a width that is not an \<open>int\<close>, before it
  returns any kernel; for a positive \<open>int\<close> width and a non-zero dx it returns the
  kernel, whatever the shapes of the two coordinate arrays are.
\<close>

theorem construction_checks_width_only:
  assumes "w \<le> 0" "0 < v" "dx \<noteq> 0"
    "is_array2 N M x_grid_field" "0 < N" "0 < M"
    "is_array2 N' M' y_grid_field" "0 < N'" "0 < M'"
  shows "gen_penalise_field_boundary_pyst_kernel_2d (PyInt w) dx x_grid_field y_grid_field
           = Inl AssertionError
    \<and> gen_penalise_field_boundary_pyst_kernel_2d (PyFloat r) dx x_grid_field y_grid_field
           = Inl AssertionError
    \<and> (\<exists>K. gen_penalise_field_boundary_pyst_kernel_2d (PyInt v) dx x_grid_field y_grid_field
           = Inr K
         \<and> kernel_width K = v
         \<and> kernel_sine_prefactor K = (pi / 2) / (real_of_int v * dx))"
  using assms(1,2,3)
  by (simp add: gen_penalise_field_boundary_pyst_kernel_2d_def
      index2_corner [OF assms(4,5,6)] index2_corner [OF assms(7,8,9)])

theorem construction_checks_width_only_witness:
  "is_array2 2 2 [[0, 1], [0, 1]] \<and> is_array2 3 3 [[0, 0, 0], [1, 1, 1], [2, 2, 2]]
   \<and> gen_penalise_field_boundary_pyst_kernel_2d (PyInt (- 1)) 1
        [[0, 1], [0, 1]] [[0, 0, 0], [1, 1, 1], [2, 2, 2]] = Inl AssertionError
   \<and> gen_penalise_field_boundary_pyst_kernel_2d (PyFloat (5 / 2)) 1
        [[0, 1], [0, 1]] [[0, 0, 0], [1, 1, 1], [2, 2, 2]] = Inl AssertionError
   \<and> (\<exists>K. gen_penalise_field_boundary_pyst_kernel_2d (PyInt 2) 1
        [[0, 1], [0, 1]] [[0, 0, 0], [1, 1, 1], [2, 2, 2]] = Inr K
      \<and> kernel_width K = 2 \<and> kernel_sine_prefactor K = pi / 4)"
  using construction_checks_width_only [of "- 1" 2 1 2 2 "[[0, 1], [0, 1]]" 3 3
      "[[0, 0, 0], [1, 1, 1], [2, 2, 2]]" "5 / 2"]
  by (simp add: is_array2_def)

text \<open>
  C7. For every kernel the generator returns and every field, the cells outside the four
  edge bands of thickness width hold after the call what they held before, whether the
  call returns or raises.
\<close>

theorem penalisation_keeps_interior:
  assumes gen: "gen_penalise_field_boundary_pyst_kernel_2d (PyInt w) dx xg yg = Inr K"
    and arr: "is_array2 N M field"
    and ij: "nat w \<le> i" "i + nat w < N" "nat w \<le> j" "j + nat w < M"
  shows "snd (penalise_field_boundary_pyst_kernel_2d K field) ! i ! j = field ! i ! j"
proof -
  define P where "P b \<longleftrightarrow> is_array2 N M b \<and> b ! i ! j = field ! i ! j" for b
  have w: "0 < w" "kernel_width K = w" using gen by (rule gen_penalise_Inr)+
  have lt: "i < N" "j < M" "0 < N" using ij by auto
  have cf: "\<not> (fst (slice_bounds None (Some w) M) \<le> j \<and> j < snd (slice_bounds None (Some w) M))"
    using ij by (simp add: slice_bounds_front [OF w(1)])
  have cb: "\<not> (fst (slice_bounds (Some (- w)) None M) \<le> j
              \<and> j < snd (slice_bounds (Some (- w)) None M))"
    using ij by (simp add: slice_bounds_back [OF w(1)])
  have rf: "\<not> (fst (slice_bounds None (Some w) N) \<le> i \<and> i < snd (slice_bounds None (Some w) N))"
    using ij by (simp add: slice_bounds_front [OF w(1)])
  have rb: "\<not> (fst (slice_bounds (Some (- w)) None N) \<le> i
              \<and> i < snd (slice_bounds (Some (- w)) None N))"
    using ij by (simp add: slice_bounds_back [OF w(1)])
  have cols: "P b'" if "P b" "assign_columns (slice_bounds a c (snd (shape2 b)))
      (slice_bounds a' c' (snd (shape2 b))) b = Inr b'"
    "\<not> (fst (slice_bounds a c M) \<le> j \<and> j < snd (slice_bounds a c M))" for b b' a c a' c'
    using columns_step [OF _ lt(3) that(2) lt(1,2) that(3)] that(1) by (simp add: P_def)
  have rows: "P b'" if "P b" "assign_rows (slice_bounds a c (fst (shape2 b)))
      (slice_bounds a' c' (fst (shape2 b))) b = Inr b'"
    "\<not> (fst (slice_bounds a c N) \<le> i \<and> i < snd (slice_bounds a c N))" for b b' a c a' c'
    using rows_step [OF _ lt(3) that(2) lt(1,2) that(3)] that(1) by (simp add: P_def)
  have kern: "P b'" if "P b"
    "(if shape2 g \<noteq> shape2 b then Inl TypeError
      else Inr (loop_over_slice_2d (slice_bounds a c (fst (shape2 b)))
        (slice_bounds a' c' (snd (shape2 b))) rhs b)) = Inr b'"
    "\<not> (fst (slice_bounds a c N) \<le> i \<and> i < snd (slice_bounds a c N)
        \<and> fst (slice_bounds a' c' M) \<le> j \<and> j < snd (slice_bounds a' c' M))"
    for b b' g a c a' c' rhs
    using kernel_step [OF _ lt(3) that(2) lt(1,2) that(3)] that(1) by (simp add: P_def)
  have xf: "P b'" if "P b"
    "penalise_field_x_front_boundary_kernel_2d K (kernel_x_grid_field K) b = Inr b'" for b b'
    using that(1) that(2) [unfolded penalise_field_x_front_boundary_kernel_2d_def w(2)]
    by (rule kern) (use cf in blast)
  have xb: "P b'" if "P b"
    "penalise_field_x_back_boundary_kernel_2d K (kernel_x_grid_field K) b = Inr b'" for b b'
    using that(1) that(2) [unfolded penalise_field_x_back_boundary_kernel_2d_def w(2)]
    by (rule kern) (use cb in blast)
  have yf: "P b'" if "P b"
    "penalise_field_y_front_boundary_kernel_2d K (kernel_y_grid_field K) b = Inr b'" for b b'
    using that(1) that(2) [unfolded penalise_field_y_front_boundary_kernel_2d_def w(2)]
    by (rule kern) (use rf in blast)
  have yb: "P b'" if "P b"
    "penalise_field_y_back_boundary_kernel_2d K (kernel_y_grid_field K) b = Inr b'" for b b'
    using that(1) that(2) [unfolded penalise_field_y_back_boundary_kernel_2d_def w(2)]
    by (rule kern) (use rb in blast)
  have P0: "P (snd (None, field))" using arr by (simp add: P_def)
  have "P (snd (penalise_field_boundary_pyst_kernel_2d K field))"
    unfolding penalise_field_boundary_pyst_kernel_2d_def Let_def w(2)
    by (intro in_place_invariant [where P = P] P0; (erule (1) xf xb yf yb)?;
        (erule (1) cols rows, rule cf cb rf rb)?)
  then show ?thesis by (simp add: P_def)
qed

theorem penalisation_keeps_interior_witness:
  "\<exists>K. gen_penalise_field_boundary_pyst_kernel_2d (PyInt 2) 1
           (uniform_x_grid 0 1 5 5) (uniform_y_grid 0 1 5 5) = Inr K
    \<and> is_array2 5 5 [[1, 2, 3, 4, 5], [6, 7, 8, 9, 10], [11, 12, 13, 14, 15],
                       [16, 17, 18, 19, 20], [21, 22, 23, 24, 25]]
    \<and> fst (penalise_field_boundary_pyst_kernel_2d K
             [[1, 2, 3, 4, 5], [6, 7, 8, 9, 10], [11, 12, 13, 14, 15],
              [16, 17, 18, 19, 20], [21, 22, 23, 24, 25]]) = None
    \<and> snd (penalise_field_boundary_pyst_kernel_2d K
             [[1, 2, 3, 4, 5], [6, 7, 8, 9, 10], [11, 12, 13, 14, 15],
              [16, 17, 18, 19, 20], [21, 22, 23, 24, 25]]) ! 2 ! 2 = 13"
proof -
  let ?F = "[[1, 2, 3, 4, 5], [6, 7, 8, 9, 10], [11, 12, 13, 14, 15],
             [16, 17, 18, 19, 20], [21, 22, 23, 24, 25 :: real]]"
  obtain K where K: "gen_penalise_field_boundary_pyst_kernel_2d (PyInt 2) 1
           (uniform_x_grid 0 1 5 5) (uniform_y_grid 0 1 5 5) = Inr K"
    using gen_penalise_uniform_ex [of 2 1 5 5 0 0] by auto
  have F: "is_array2 5 5 ?F" by (simp add: is_array2_def)
  have run: "fst (penalise_field_boundary_pyst_kernel_2d K ?F) = None"
    using K _ _ _ F uniform_x_grid_array uniform_y_grid_array
    by (rule penalisation_runs) simp_all
  have "snd (penalise_field_boundary_pyst_kernel_2d K ?F) ! 2 ! 2 = ?F ! 2 ! 2"
    using K F by (rule penalisation_keeps_interior) simp_all
  then have "snd (penalise_field_boundary_pyst_kernel_2d K ?F) ! 2 ! 2 = 13" by simp
  with K F run show ?thesis by blast
qed

text \<open>
  C8. On grids with all extents at least 3, both the vorticity forcing accumulator and the
  penalised-velocity accumulator leave every cell of the outermost ring of every vorticity
  component exactly as it was: nothing is accumulated there and nothing is zeroed there.
\<close>

theorem accumulators_keep_boundary_ring:
  assumes "is_vector_field3 N M K vorticity_field"
    "is_vector_field3 N M K velocity_forcing_field"
    "is_vector_field3 N M K penalised_velocity_field"
    "is_vector_field3 N M K velocity_field"
    "3 \<le> N" "3 \<le> M" "3 \<le> K"
    "i < N" "j < M" "k < K"
    "i = 0 \<or> i = N - 1 \<or> j = 0 \<or> j = M - 1 \<or> k = 0 \<or> k = K - 1"
    "c < 3"
  shows "(\<exists>vorticity'.
        update_vorticity_from_velocity_forcing_pyst_kernel_3d
          vorticity_field velocity_forcing_field prefactor = (None, vorticity')
      \<and> vorticity' ! c ! i ! j ! k = vorticity_field ! c ! i ! j ! k)
    \<and> (\<exists>vorticity'.
        update_vorticity_from_penalised_velocity_kernel_3d
          vorticity_field penalised_velocity_field velocity_field prefactor = (None, vorticity')
      \<and> vorticity' ! c ! i ! j ! k = vorticity_field ! c ! i ! j ! k)"
proof -
  have pos: "0 < N" "0 < M" using assms(5,6) by auto
  have w: "is_array3 N M K (vorticity_field ! 0)" "is_array3 N M K (vorticity_field ! 1)"
    "is_array3 N M K (vorticity_field ! 2)"
    using assms(1) by (simp_all add: is_vector_field3_nth)
  have ring: "\<not> (1 \<le> i \<and> i + 1 < N \<and> 1 \<le> j \<and> j + 1 < M \<and> 1 \<le> k \<and> k + 1 < K)"
    using assms(8-11) by auto
  have keep: "loop_over_domain_3d 1 rhs (vorticity_field ! c) ! i ! j ! k
      = vorticity_field ! c ! i ! j ! k" for rhs
    by (subst loop_over_domain_3d_nth [OF is_vector_field3_nth [OF assms(1,12)] assms(8-10)])
      (use ring in auto)
  have c: "c = 0 \<or> c = 1 \<or> c = 2" using assms(12) by auto
  have a: "\<exists>vorticity'.
        update_vorticity_from_velocity_forcing_pyst_kernel_3d
          vorticity_field velocity_forcing_field prefactor = (None, vorticity')
      \<and> vorticity' ! c ! i ! j ! k = vorticity_field ! c ! i ! j ! k"
    unfolding forcing_run [OF assms(1,2) pos]
    using c keep by auto
  have b: "\<exists>vorticity'.
        update_vorticity_from_penalised_velocity_kernel_3d
          vorticity_field penalised_velocity_field velocity_field prefactor = (None, vorticity')
      \<and> vorticity' ! c ! i ! j ! k = vorticity_field ! c ! i ! j ! k"
    unfolding penalised_run [OF assms(1,3,4) pos]
    using c keep by auto
  from a b show ?thesis by (rule conjI)
qed

theorem accumulators_keep_boundary_ring_witness:
  "is_vector_field3 3 3 3 (sample_vector_field3 0)
   \<and> is_vector_field3 3 3 3 (sample_vector_field3 1)
   \<and> is_vector_field3 3 3 3 (sample_vector_field3 5)
   \<and> (\<exists>vorticity'.
        update_vorticity_from_velocity_forcing_pyst_kernel_3d
          (sample_vector_field3 0) (sample_vector_field3 1) 2 = (None, vorticity')
      \<and> vorticity' ! 1 ! 0 ! 1 ! 1 = 5)
   \<and> (\<exists>vorticity'.
        update_vorticity_from_penalised_velocity_kernel_3d
          (sample_vector_field3 0) (sample_vector_field3 1) (sample_vector_field3 5) 2
          = (None, vorticity')
      \<and> vorticity' ! 1 ! 0 ! 1 ! 1 = 5)"
proof -
  have h: "is_vector_field3 3 3 3 (sample_vector_field3 a)" for a
    by (simp add: is_vector_field3_def is_array3_def is_array2_def
        sample_vector_field3_def sample_field3_def)
  show ?thesis
    using accumulators_keep_boundary_ring
      [OF h [of 0] h [of 1] h [of 1] h [of 5], of 0 1 1 1 2] h [of 0] h [of 1] h [of 5]
    by (simp add: sample_vector_field3_def sample_field3_def)
qed

text \<open>
  C9. Over exact real arithmetic, on uniform coordinate arrays of spacing dx > 0 and with
  a width w that fits the grid, the factor each sliced kernel multiplies a band cell by
  starts at 0 at the outer edge of the band (the outermost cell becomes 0), does not
  decrease from a cell to a cell further inward (d \<le> d' < w cells from the outer edge),
  and stays below 1. When moreover w is at least 2 and the bands do not overlap, the
  whole operator returns and leaves in the band cells away from the corners one copied
  value times these factors.
\<close>

theorem taper_monotone_in_band:
  assumes "0 < w" "0 < dx" "w \<le> N" "w \<le> M" "i < N" "j < M" "d \<le> d'" "d' < w"
    "is_array2 N M field"
  shows "\<exists>K. gen_penalise_field_boundary_pyst_kernel_2d (PyInt (int w)) dx
           (uniform_x_grid x0 dx N M) (uniform_y_grid y0 dx N M) = Inr K
    \<and> (\<exists>f'. penalise_field_x_front_boundary_kernel_2d K (kernel_x_grid_field K) field = Inr f'
         \<and> f' ! i ! 0 = 0
         \<and> f' ! i ! d = field ! i ! d * sin (pi / 2 * (real d / real w))
         \<and> f' ! i ! d' = field ! i ! d' * sin (pi / 2 * (real d' / real w)))
    \<and> (\<exists>f'. penalise_field_x_back_boundary_kernel_2d K (kernel_x_grid_field K) field = Inr f'
         \<and> f' ! i ! (M - 1) = 0
         \<and> f' ! i ! (M - 1 - d) = field ! i ! (M - 1 - d) * sin (pi / 2 * (real d / real w))
         \<and> f' ! i ! (M - 1 - d') = field ! i ! (M - 1 - d') * sin (pi / 2 * (real d' / real w)))
    \<and> (\<exists>f'. penalise_field_y_front_boundary_kernel_2d K (kernel_y_grid_field K) field = Inr f'
         \<and> f' ! 0 ! j = 0
         \<and> f' ! d ! j = field ! d ! j * sin (pi / 2 * (real d / real w))
         \<and> f' ! d' ! j = field ! d' ! j * sin (pi / 2 * (real d' / real w)))
    \<and> (\<exists>f'. penalise_field_y_back_boundary_kernel_2d K (kernel_y_grid_field K) field = Inr f'
         \<and> f' ! (N - 1) ! j = 0
         \<and> f' ! (N - 1 - d) ! j = field ! (N - 1 - d) ! j * sin (pi / 2 * (real d / real w))
         \<and> f' ! (N - 1 - d') ! j = field ! (N - 1 - d') ! j * sin (pi / 2 * (real d' / real w)))
    \<and> 0 \<le> sin (pi / 2 * (real d / real w))
    \<and> sin (pi / 2 * (real d / real w)) \<le> sin (pi / 2 * (real d' / real w))
    \<and> sin (pi / 2 * (real d' / real w)) < 1
    \<and> (2 \<le> w \<and> 2 * w \<le> N \<and> 2 * w \<le> M \<and> w \<le> i \<and> i + w < N \<and> w \<le> j \<and> j + w < M \<longrightarrow>
        (\<exists>f'. penalise_field_boundary_pyst_kernel_2d K field = (None, f')
           \<and> f' ! i ! 0 = 0
           \<and> f' ! i ! d = field ! i ! (w - 1) * sin (pi / 2 * (real d / real w))
           \<and> f' ! i ! d' = field ! i ! (w - 1) * sin (pi / 2 * (real d' / real w))
           \<and> f' ! i ! (M - 1) = 0
           \<and> f' ! i ! (M - 1 - d) = field ! i ! (M - w) * sin (pi / 2 * (real d / real w))
           \<and> f' ! i ! (M - 1 - d') = field ! i ! (M - w) * sin (pi / 2 * (real d' / real w))
           \<and> f' ! 0 ! j = 0
           \<and> f' ! d ! j = field ! (w - 1) ! j * sin (pi / 2 * (real d / real w))
           \<and> f' ! d' ! j = field ! (w - 1) ! j * sin (pi / 2 * (real d' / real w))
           \<and> f' ! (N - 1) ! j = 0
           \<and> f' ! (N - 1 - d) ! j = field ! (N - w) ! j * sin (pi / 2 * (real d / real w))
           \<and> f' ! (N - 1 - d') ! j = field ! (N - w) ! j * sin (pi / 2 * (real d' / real w))))"
proof -
  have dx: "dx \<noteq> 0" using assms(2) by simp
  have pos: "0 < N" "0 < M" using assms(1,3,4) by auto
  have dw: "d < w" using assms(7,8) by simp
  obtain K where K: "gen_penalise_field_boundary_pyst_kernel_2d (PyInt (int w)) dx
           (uniform_x_grid x0 dx N M) (uniform_y_grid y0 dx N M) = Inr K"
    using gen_penalise_uniform_ex [OF assms(1) dx pos] by blast
  note all = band_kernels_uniform_all [OF assms(1) dx assms(3,4,9) K]
  obtain fxf where kxf:
    "penalise_field_x_front_boundary_kernel_2d K (kernel_x_grid_field K) field = Inr fxf"
    and xf: "\<And>i d. i < N \<Longrightarrow> d < w \<Longrightarrow>
       fxf ! i ! d = field ! i ! d * sin (pi / 2 * (real d / real w))"
    using all(1) by blast
  obtain fxb where kxb:
    "penalise_field_x_back_boundary_kernel_2d K (kernel_x_grid_field K) field = Inr fxb"
    and xb: "\<And>i d. i < N \<Longrightarrow> d < w \<Longrightarrow>
       fxb ! i ! (M - 1 - d) = field ! i ! (M - 1 - d) * sin (pi / 2 * (real d / real w))"
    using all(2) by blast
  obtain fyf where kyf:
    "penalise_field_y_front_boundary_kernel_2d K (kernel_y_grid_field K) field = Inr fyf"
    and yf: "\<And>j d. j < M \<Longrightarrow> d < w \<Longrightarrow>
       fyf ! d ! j = field ! d ! j * sin (pi / 2 * (real d / real w))"
    using all(3) by blast
  obtain fyb where kyb:
    "penalise_field_y_back_boundary_kernel_2d K (kernel_y_grid_field K) field = Inr fyb"
    and yb: "\<And>j d. j < M \<Longrightarrow> d < w \<Longrightarrow>
       fyb ! (N - 1 - d) ! j = field ! (N - 1 - d) ! j * sin (pi / 2 * (real d / real w))"
    using all(4) by blast
  have A: "(\<exists>f'. penalise_field_x_front_boundary_kernel_2d K (kernel_x_grid_field K) field = Inr f'
         \<and> f' ! i ! 0 = 0
         \<and> f' ! i ! d = field ! i ! d * sin (pi / 2 * (real d / real w))
         \<and> f' ! i ! d' = field ! i ! d' * sin (pi / 2 * (real d' / real w)))"
    using kxf xf [OF assms(5,1)] xf [OF assms(5) dw] xf [OF assms(5,8)] by simp
  have B: "(\<exists>f'. penalise_field_x_back_boundary_kernel_2d K (kernel_x_grid_field K) field = Inr f'
         \<and> f' ! i ! (M - 1) = 0
         \<and> f' ! i ! (M - 1 - d) = field ! i ! (M - 1 - d) * sin (pi / 2 * (real d / real w))
         \<and> f' ! i ! (M - 1 - d') = field ! i ! (M - 1 - d') * sin (pi / 2 * (real d' / real w)))"
    using kxb xb [OF assms(5,1)] xb [OF assms(5) dw] xb [OF assms(5,8)] by simp
  have C: "(\<exists>f'. penalise_field_y_front_boundary_kernel_2d K (kernel_y_grid_field K) field = Inr f'
         \<and> f' ! 0 ! j = 0
         \<and> f' ! d ! j = field ! d ! j * sin (pi / 2 * (real d / real w))
         \<and> f' ! d' ! j = field ! d' ! j * sin (pi / 2 * (real d' / real w)))"
    using kyf yf [OF assms(6,1)] yf [OF assms(6) dw] yf [OF assms(6,8)] by simp
  have D: "(\<exists>f'. penalise_field_y_back_boundary_kernel_2d K (kernel_y_grid_field K) field = Inr f'
         \<and> f' ! (N - 1) ! j = 0
         \<and> f' ! (N - 1 - d) ! j = field ! (N - 1 - d) ! j * sin (pi / 2 * (real d / real w))
         \<and> f' ! (N - 1 - d') ! j = field ! (N - 1 - d') ! j * sin (pi / 2 * (real d' / real w)))"
    using kyb yb [OF assms(6,1)] yb [OF assms(6) dw] yb [OF assms(6,8)] by simp
  have lo: "0 \<le> sin (pi / 2 * (real d / real w))" using dw by (rule sin_taper_bounds)
  have m: "sin (pi / 2 * (real d / real w)) \<le> sin (pi / 2 * (real d' / real w))"
    using assms(7,8) by (rule sin_taper_mono)
  have hi: "sin (pi / 2 * (real d' / real w)) < 1" using assms(8) by (rule sin_taper_bounds)
  have E: "2 \<le> w \<and> 2 * w \<le> N \<and> 2 * w \<le> M \<and> w \<le> i \<and> i + w < N \<and> w \<le> j \<and> j + w < M \<longrightarrow>
        (\<exists>f'. penalise_field_boundary_pyst_kernel_2d K field = (None, f')
           \<and> f' ! i ! 0 = 0
           \<and> f' ! i ! d = field ! i ! (w - 1) * sin (pi / 2 * (real d / real w))
           \<and> f' ! i ! d' = field ! i ! (w - 1) * sin (pi / 2 * (real d' / real w))
           \<and> f' ! i ! (M - 1) = 0
           \<and> f' ! i ! (M - 1 - d) = field ! i ! (M - w) * sin (pi / 2 * (real d / real w))
           \<and> f' ! i ! (M - 1 - d') = field ! i ! (M - w) * sin (pi / 2 * (real d' / real w))
           \<and> f' ! 0 ! j = 0
           \<and> f' ! d ! j = field ! (w - 1) ! j * sin (pi / 2 * (real d / real w))
           \<and> f' ! d' ! j = field ! (w - 1) ! j * sin (pi / 2 * (real d' / real w))
           \<and> f' ! (N - 1) ! j = 0
           \<and> f' ! (N - 1 - d) ! j = field ! (N - w) ! j * sin (pi / 2 * (real d / real w))
           \<and> f' ! (N - 1 - d') ! j = field ! (N - w) ! j * sin (pi / 2 * (real d' / real w)))"
  proof
    assume h: "2 \<le> w \<and> 2 * w \<le> N \<and> 2 * w \<le> M \<and> w \<le> i \<and> i + w < N \<and> w \<le> j \<and> j + w < M"
    from h have h': "2 \<le> w" "2 * w \<le> N" "2 * w \<le> M" "w \<le> i" "i + w < N" "w \<le> j" "j + w < M"
      by simp_all
    note v = penalisation_band_values [OF h'(1) dx h'(2,3) assms(9) K h'(4,5,6,7)]
    obtain f0 where r: "penalise_field_boundary_pyst_kernel_2d K field = (None, f0)"
      using v [OF assms(1)] by blast
    have z: "f0 ! i ! 0 = 0" "f0 ! i ! (M - 1) = 0" "f0 ! 0 ! j = 0" "f0 ! (N - 1) ! j = 0"
      using v [OF assms(1)] unfolding r by auto
    have p: "f0 ! i ! d = field ! i ! (w - 1) * sin (pi / 2 * (real d / real w))"
      "f0 ! i ! (M - 1 - d) = field ! i ! (M - w) * sin (pi / 2 * (real d / real w))"
      "f0 ! d ! j = field ! (w - 1) ! j * sin (pi / 2 * (real d / real w))"
      "f0 ! (N - 1 - d) ! j = field ! (N - w) ! j * sin (pi / 2 * (real d / real w))"
      using v [OF dw] unfolding r by auto
    have q: "f0 ! i ! d' = field ! i ! (w - 1) * sin (pi / 2 * (real d' / real w))"
      "f0 ! i ! (M - 1 - d') = field ! i ! (M - w) * sin (pi / 2 * (real d' / real w))"
      "f0 ! d' ! j = field ! (w - 1) ! j * sin (pi / 2 * (real d' / real w))"
      "f0 ! (N - 1 - d') ! j = field ! (N - w) ! j * sin (pi / 2 * (real d' / real w))"
      using v [OF assms(8)] unfolding r by auto
    show "(\<exists>f'. penalise_field_boundary_pyst_kernel_2d K field = (None, f')
           \<and> f' ! i ! 0 = 0
           \<and> f' ! i ! d = field ! i ! (w - 1) * sin (pi / 2 * (real d / real w))
           \<and> f' ! i ! d' = field ! i ! (w - 1) * sin (pi / 2 * (real d' / real w))
           \<and> f' ! i ! (M - 1) = 0
           \<and> f' ! i ! (M - 1 - d) = field ! i ! (M - w) * sin (pi / 2 * (real d / real w))
           \<and> f' ! i ! (M - 1 - d') = field ! i ! (M - w) * sin (pi / 2 * (real d' / real w))
           \<and> f' ! 0 ! j = 0
           \<and> f' ! d ! j = field ! (w - 1) ! j * sin (pi / 2 * (real d / real w))
           \<and> f' ! d' ! j = field ! (w - 1) ! j * sin (pi / 2 * (real d' / real w))
           \<and> f' ! (N - 1) ! j = 0
           \<and> f' ! (N - 1 - d) ! j = field ! (N - w) ! j * sin (pi / 2 * (real d / real w))
           \<and> f' ! (N - 1 - d') ! j = field ! (N - w) ! j * sin (pi / 2 * (real d' / real w)))"
      by (intro exI [of _ f0] conjI r z p q)
  qed
  show ?thesis
    by (intro exI [of _ K] conjI K A B C D lo m hi E)
qed

theorem taper_monotone_in_band_witness:
  "is_array2 6 6 [[2, 4, 6, 8, 10, 12], [4, 6, 8, 10, 12, 14], [6, 8, 10, 12, 14, 16],
                  [8, 10, 12, 14, 16, 18], [10, 12, 14, 16, 18, 20], [12, 14, 16, 18, 20, 22]]
   \<and> (\<exists>K. gen_penalise_field_boundary_pyst_kernel_2d (PyInt 2) 1
           (uniform_x_grid 0 1 6 6) (uniform_y_grid 0 1 6 6) = Inr K
      \<and> (\<exists>f'. penalise_field_x_front_boundary_kernel_2d K (kernel_x_grid_field K)
             [[2, 4, 6, 8, 10, 12], [4, 6, 8, 10, 12, 14], [6, 8, 10, 12, 14, 16],
              [8, 10, 12, 14, 16, 18], [10, 12, 14, 16, 18, 20], [12, 14, 16, 18, 20, 22]]
             = Inr f'
           \<and> f' ! 2 ! 0 = 0 \<and> f' ! 2 ! 1 = 8 * sin (pi / 4))
      \<and> (\<exists>f'. penalise_field_boundary_pyst_kernel_2d K
             [[2, 4, 6, 8, 10, 12], [4, 6, 8, 10, 12, 14], [6, 8, 10, 12, 14, 16],
              [8, 10, 12, 14, 16, 18], [10, 12, 14, 16, 18, 20], [12, 14, 16, 18, 20, 22]]
             = (None, f')
           \<and> f' ! 2 ! 0 = 0 \<and> f' ! 2 ! 1 = 8 * sin (pi / 4)
           \<and> f' ! 2 ! 5 = 0 \<and> f' ! 2 ! 4 = 14 * sin (pi / 4))
      \<and> 0 \<le> sin (pi / 4) \<and> sin (pi / 4) < 1)"
  using taper_monotone_in_band [of 2 1 6 6 2 3 0 1
      "[[2, 4, 6, 8, 10, 12], [4, 6, 8, 10, 12, 14], [6, 8, 10, 12, 14, 16],
        [8, 10, 12, 14, 16, 18], [10, 12, 14, 16, 18, 20], [12, 14, 16, 18, 20, 22]]" 0 0]
  by (auto simp: is_array2_def)

text \<open>
  C10. The output of the 2D curl operator does not depend on what the curl buffer held
  before: for a field with both extents at least 3 and one prefactor, runs started from
  two different buffers of the right shape end, without an exception, in the same buffer.
\<close>

theorem curl_ignores_old_buffer:
  assumes "is_array2 N M field" "is_vector_field2 N M curl_a" "is_vector_field2 N M curl_b"
    "3 \<le> N" "3 \<le> M"
  shows "\<exists>curl'. outplane_field_curl_pyst_kernel_2d curl_a field prefactor = (None, curl')
           \<and> outplane_field_curl_pyst_kernel_2d curl_b field prefactor = (None, curl')"
proof -
  have pos: "0 < N" using assms(4) by auto
  have a: "is_array2 N M (curl_a ! 0)" "is_array2 N M (curl_a ! 1)"
    using assms(2) by (simp_all add: is_vector_field2_nth)
  have b: "is_array2 N M (curl_b ! 0)" "is_array2 N M (curl_b ! 1)"
    using assms(3) by (simp_all add: is_vector_field2_nth)
  have same: "set_fixed_val_at_boundaries_2d 1 (loop_over_domain_2d 1 rhs p) 0
            = set_fixed_val_at_boundaries_2d 1 (loop_over_domain_2d 1 rhs q) 0"
    if "is_array2 N M p" "is_array2 N M q" for rhs p q
  proof (rule array2_eqI)
    show "is_array2 N M (set_fixed_val_at_boundaries_2d 1 (loop_over_domain_2d 1 rhs p) 0)"
      using that(1) by (intro is_array2_set_fixed is_array2_loop)
    show "is_array2 N M (set_fixed_val_at_boundaries_2d 1 (loop_over_domain_2d 1 rhs q) 0)"
      using that(2) by (intro is_array2_set_fixed is_array2_loop)
  next
    fix i j assume "i < N" "j < M"
    then show "set_fixed_val_at_boundaries_2d 1 (loop_over_domain_2d 1 rhs p) 0 ! i ! j
             = set_fixed_val_at_boundaries_2d 1 (loop_over_domain_2d 1 rhs q) 0 ! i ! j"
      by (auto simp: set_fixed_val_at_boundaries_2d_nth [OF is_array2_loop [OF that(1)]]
          set_fixed_val_at_boundaries_2d_nth [OF is_array2_loop [OF that(2)]]
          loop_over_domain_2d_nth [OF that(1)] loop_over_domain_2d_nth [OF that(2)])
  qed
  show ?thesis
    unfolding outplane_field_curl_run [OF assms(1) pos is_vector_field2_length [OF assms(2)] a]
      outplane_field_curl_run [OF assms(1) pos is_vector_field2_length [OF assms(3)] b]
    using same [OF a(1) b(1)] same [OF a(2) b(2)] by simp
qed

theorem curl_ignores_old_buffer_witness:
  "is_array2 3 3 [[1, 2, 3], [4, 5, 6], [7, 8, 10]] \<and>
   is_vector_field2 3 3 [[[9, 9, 9], [9, 9, 9], [9, 9, 9]], [[9, 9, 9], [9, 9, 9], [9, 9, 9]]] \<and>
   is_vector_field2 3 3 [[[1, 0, 2], [0, 3, 0], [4, 0, 5]], [[6, 7, 8], [9, 1, 2], [3, 4, 5]]] \<and>
   (\<exists>curl'. outplane_field_curl_pyst_kernel_2d
        [[[9, 9, 9], [9, 9, 9], [9, 9, 9]], [[9, 9, 9], [9, 9, 9], [9, 9, 9]]]
        [[1, 2, 3], [4, 5, 6], [7, 8, 10]] 2 = (None, curl')
      \<and> outplane_field_curl_pyst_kernel_2d
        [[[1, 0, 2], [0, 3, 0], [4, 0, 5]], [[6, 7, 8], [9, 1, 2], [3, 4, 5]]]
        [[1, 2, 3], [4, 5, 6], [7, 8, 10]] 2 = (None, curl'))"
  using curl_ignores_old_buffer [of 3 3 "[[1, 2, 3], [4, 5, 6], [7, 8, 10]]"
      "[[[9, 9, 9], [9, 9, 9], [9, 9, 9]], [[9, 9, 9], [9, 9, 9], [9, 9, 9]]]"
      "[[[1, 0, 2], [0, 3, 0], [4, 0, 5]], [[6, 7, 8], [9, 1, 2], [3, 4, 5]]]" 2]
  by (simp add: is_array2_def is_vector_field2_def)

end
